theory Spec2Isabelle
  imports Complex_Main
begin

section \<open>Data model\<close>

text \<open>
  The \<^verbatim>\<open>Question\<close> interface of \<^verbatim>\<open>src/App.tsx\<close>, which is also the shape of the
  rows the server selects (\<^verbatim>\<open>id, question, options, correct_answer as "correctAnswer",
  explanation\<close>). The field \<^verbatim>\<open>id\<close> is called \<open>qid\<close> here, because \<open>id\<close> is the
  identity function of HOL. The columns \<^verbatim>\<open>created_at\<close> and \<^verbatim>\<open>updated_at\<close> are never
  selected by any handler and are left out. The characters of a \<open>string\<close> stand for
  the code points U+0000 to U+00FF; texts with other characters are outside the model.
\<close>

record Question =
  qid :: int
  question :: string
  options :: "string list"
  correctAnswer :: int
  explanation :: string

text \<open>
  The table \<^verbatim>\<open>questions\<close> of \<^verbatim>\<open>src/server/server.ts\<close>: its rows, and the next value
  of the sequence behind \<^verbatim>\<open>id SERIAL PRIMARY KEY\<close>.
\<close>

record db =
  questions :: "Question list"
  questions_id_seq :: int

subsection \<open>Request bodies\<close>

text \<open>
  \<^verbatim>\<open>const { question, options, correctAnswer, explanation } = req.body\<close>: each
  field of the JSON body may be missing (\<open>Undefined\<close>), \<^verbatim>\<open>null\<close>, or a value. The
  values modelled are those of the JSON types the client sends: a string for
  \<^verbatim>\<open>question\<close> and \<^verbatim>\<open>explanation\<close>, a number for \<^verbatim>\<open>correctAnswer\<close> (a rational:
  every finite double is one, and only the order of numbers and whether they are
  integers is used), and for \<^verbatim>\<open>options\<close> an array of strings or, as a value that
  is not an array, a string.
\<close>

datatype 'a jsfield = Undefined | Null | Val 'a

datatype options_json = OArray "string list" | OString string

record body =
  b_question :: "string jsfield"
  b_options :: "options_json jsfield"
  b_correctAnswer :: "rat jsfield"
  b_explanation :: "string jsfield"

text \<open>JavaScript's \<^verbatim>\<open>!x\<close> is true on \<^verbatim>\<open>undefined\<close>, \<^verbatim>\<open>null\<close> and the empty string;
  every array is truthy.\<close>

fun truthy_string :: "string jsfield \<Rightarrow> bool" where
  "truthy_string Undefined = False"
| "truthy_string Null = False"
| "truthy_string (Val s) = (s \<noteq> [])"

fun truthy_options :: "options_json jsfield \<Rightarrow> bool" where
  "truthy_options Undefined = False"
| "truthy_options Null = False"
| "truthy_options (Val (OArray xs)) = True"
| "truthy_options (Val (OString s)) = (s \<noteq> [])"

fun isArray :: "options_json jsfield \<Rightarrow> bool" where
  "isArray (Val (OArray xs)) = True"
| "isArray _ = False"

text \<open>\<^verbatim>\<open>options.length\<close>; it is read only after \<^verbatim>\<open>options\<close> passed the two tests
  before it, so never on \<^verbatim>\<open>undefined\<close> or \<^verbatim>\<open>null\<close> (where it would throw).\<close>

fun js_length :: "options_json jsfield \<Rightarrow> nat option" where
  "js_length (Val (OArray xs)) = Some (length xs)"
| "js_length (Val (OString s)) = Some (length s)"
| "js_length _ = None"

text \<open>
  \<^verbatim>\<open>correctAnswer < 0\<close> and \<^verbatim>\<open>correctAnswer > 3\<close> convert the left operand to a
  number first: \<^verbatim>\<open>undefined\<close> becomes NaN (\<open>None\<close>), \<^verbatim>\<open>null\<close> becomes 0, and
  a comparison with NaN is false.
\<close>

fun ToNumber :: "rat jsfield \<Rightarrow> rat option" where
  "ToNumber Undefined = None"
| "ToNumber Null = Some 0"
| "ToNumber (Val x) = Some x"

definition js_lt :: "rat jsfield \<Rightarrow> rat \<Rightarrow> bool" where
  "js_lt a c = (case ToNumber a of None \<Rightarrow> False | Some x \<Rightarrow> x < c)"

definition js_gt :: "rat jsfield \<Rightarrow> rat \<Rightarrow> bool" where
  "js_gt a c = (case ToNumber a of None \<Rightarrow> False | Some x \<Rightarrow> x > c)"

subsection \<open>Responses\<close>

text \<open>The body of a response: one of the JSON values that the handlers send, or the
  page of Express's own error handler.\<close>

datatype json =
  Error string | Row Question | Rows "Question list" | Message string | ErrorPage

record response =
  status :: nat
  json :: json

definition respond :: "nat \<Rightarrow> json \<Rightarrow> response" where
  "respond st j = \<lparr>status = st, json = j\<rparr>"

text \<open>\<^verbatim>\<open>response.ok\<close> of the fetch API: a status in the range 200-299.\<close>

definition ok :: "response \<Rightarrow> bool" where
  "ok r = (200 \<le> status r \<and> status r \<le> 299)"

section \<open>The question store\<close>

text \<open>
  The queries of \<^verbatim>\<open>src/server/server.ts\<close> on the table created by
  \<^verbatim>\<open>
  CREATE TABLE IF NOT EXISTS questions (
    id SERIAL PRIMARY KEY,
    question TEXT NOT NULL,
    options TEXT[] NOT NULL,
    correct_answer INTEGER NOT NULL,
    explanation TEXT NOT NULL, ...)
  \<close>
  A query that the database refuses makes \<^verbatim>\<open>pool.query\<close> throw; the kinds of refusal
  that the schema gives rise to are the constructors of \<open>db_error\<close>.
\<close>

datatype db_error =
    invalid_integer
  | invalid_byte_sequence
  | sequence_exhausted
  | not_null_violation
  | unique_violation

text \<open>The values of an \<^verbatim>\<open>INTEGER\<close> column and of a \<^verbatim>\<open>SERIAL\<close> sequence are integers
  of 32 bits.\<close>

definition int4 :: "int \<Rightarrow> bool" where
  "int4 i = (- 2147483648 \<le> i \<and> i \<le> 2147483647)"

text \<open>A text value cannot hold the character U+0000.\<close>

definition storable :: "string \<Rightarrow> bool" where
  "storable s = (CHR 0x00 \<notin> set s)"

text \<open>
  The parameters of a query are sent as texts and read as values of the columns' types
  when the statement is bound; a parameter that cannot be read is refused then, before
  the statement runs. A parameter that is \<^verbatim>\<open>undefined\<close> or \<^verbatim>\<open>null\<close> is sent as SQL
  \<^verbatim>\<open>NULL\<close>.
\<close>

fun sql_param :: "'a jsfield \<Rightarrow> 'a option" where
  "sql_param Undefined = None"
| "sql_param Null = None"
| "sql_param (Val v) = Some v"

definition text_param :: "string jsfield \<Rightarrow> db_error + string option" where
  "text_param p =
     (case sql_param p of
        None \<Rightarrow> Inr None
      | Some s \<Rightarrow> if storable s then Inr (Some s) else Inl invalid_byte_sequence)"

definition text_array_param :: "string list jsfield \<Rightarrow> db_error + string list option" where
  "text_array_param p =
     (case sql_param p of
        None \<Rightarrow> Inr None
      | Some ss \<Rightarrow> if list_all storable ss then Inr (Some ss) else Inl invalid_byte_sequence)"

text \<open>A number arrives as its decimal text: it is read as an integer of 32 bits, or
  refused.\<close>

definition int4_param :: "rat jsfield \<Rightarrow> db_error + int option" where
  "int4_param c =
     (case sql_param c of
        None \<Rightarrow> Inr None
      | Some x \<Rightarrow>
          if rat_of_int \<lfloor>x\<rfloor> \<noteq> x \<or> \<not> int4 \<lfloor>x\<rfloor>
          then Inl invalid_integer
          else Inr (Some \<lfloor>x\<rfloor>))"

text \<open>
  The segment \<^verbatim>\<open>:id\<close> of the path is handed to the query as it is
  (\<^verbatim>\<open>const { id } = req.params\<close>). It is a text that PostgreSQL reads as an integer,
  or one that it does not read as an integer.
\<close>

datatype path_id = IntegerText int | OtherText

fun id_param :: "path_id \<Rightarrow> db_error + int" where
  "id_param (IntegerText i) = (if int4 i then Inr i else Inl invalid_integer)"
| "id_param OtherText = Inl invalid_integer"

text \<open>The four parameters of the \<^verbatim>\<open>INSERT\<close> and of the \<^verbatim>\<open>UPDATE\<close>.\<close>

definition bind ::
  "string jsfield \<Rightarrow> string list jsfield \<Rightarrow> rat jsfield \<Rightarrow> string jsfield
     \<Rightarrow> db_error + (string option \<times> string list option \<times> int option \<times> string option)" where
  "bind q os c e =
     (case text_param q of
        Inl err \<Rightarrow> Inl err
      | Inr q' \<Rightarrow>
          (case text_array_param os of
             Inl err \<Rightarrow> Inl err
           | Inr os' \<Rightarrow>
               (case int4_param c of
                  Inl err \<Rightarrow> Inl err
                | Inr c' \<Rightarrow>
                    (case text_param e of
                       Inl err \<Rightarrow> Inl err
                     | Inr e' \<Rightarrow> Inr (q', os', c', e')))))"

text \<open>
  \<^verbatim>\<open>INSERT INTO questions (question, options, correct_answer, explanation)
  VALUES ($1, $2, $3, $4) RETURNING ...\<close>: the id is the next value of the sequence.
  The sequence gives no value beyond 2147483647; a value it gave stays consumed when the
  row is then refused.
\<close>

definition INSERT ::
  "string jsfield \<Rightarrow> string list jsfield \<Rightarrow> rat jsfield \<Rightarrow> string jsfield \<Rightarrow> db
     \<Rightarrow> (db_error + Question) \<times> db" where
  "INSERT q os c e d =
     (case bind q os c e of
        Inl err \<Rightarrow> (Inl err, d)
      | Inr (q', os', c', e') \<Rightarrow>
          let i = questions_id_seq d
          in if 2147483647 < i then (Inl sequence_exhausted, d)
             else
               let d' = d\<lparr>questions_id_seq := i + 1\<rparr>
               in (case (q', os', c', e') of
                     (Some q'', Some os'', Some c'', Some e'') \<Rightarrow>
                       if i \<in> set (map qid (questions d)) then (Inl unique_violation, d')
                       else
                         let r = \<lparr>qid = i, question = q'', options = os'',
                                  correctAnswer = c'', explanation = e''\<rparr>
                         in (Inr r, d'\<lparr>questions := questions d @ [r]\<rparr>)
                   | _ \<Rightarrow> (Inl not_null_violation, d')))"

text \<open>
  \<^verbatim>\<open>UPDATE questions SET question = $1, options = $2, correct_answer = $3,
  explanation = $4, updated_at = CURRENT_TIMESTAMP WHERE id = $5 RETURNING ...\<close>:
  the result is the list of the rows updated. The constraints are checked on the
  rows that are written, so not at all when no row has the id.
\<close>

definition UPDATE ::
  "string jsfield \<Rightarrow> string list jsfield \<Rightarrow> rat jsfield \<Rightarrow> string jsfield \<Rightarrow> path_id \<Rightarrow> db
     \<Rightarrow> (db_error + Question list) \<times> db" where
  "UPDATE q os c e p d =
     (case bind q os c e of
        Inl err \<Rightarrow> (Inl err, d)
      | Inr (q', os', c', e') \<Rightarrow>
          (case id_param p of
             Inl err \<Rightarrow> (Inl err, d)
           | Inr i \<Rightarrow>
               if filter (\<lambda>r. qid r = i) (questions d) = [] then (Inr [], d)
               else
                 (case (q', os', c', e') of
                    (Some q'', Some os'', Some c'', Some e'') \<Rightarrow>
                      let upd = (\<lambda>r. if qid r = i
                                     then r\<lparr>question := q'', options := os'',
                                            correctAnswer := c'', explanation := e''\<rparr>
                                     else r)
                      in (Inr (map upd (filter (\<lambda>r. qid r = i) (questions d))),
                          d\<lparr>questions := map upd (questions d)\<rparr>)
                  | _ \<Rightarrow> (Inl not_null_violation, d))))"

text \<open>\<^verbatim>\<open>DELETE FROM questions WHERE id = $1 RETURNING *\<close>: the result is the list of
  the rows deleted.\<close>

definition DELETE :: "path_id \<Rightarrow> db \<Rightarrow> (db_error + Question list) \<times> db" where
  "DELETE p d =
     (case id_param p of
        Inl err \<Rightarrow> (Inl err, d)
      | Inr i \<Rightarrow>
          (Inr (filter (\<lambda>r. qid r = i) (questions d)),
           d\<lparr>questions := filter (\<lambda>r. qid r \<noteq> i) (questions d)\<rparr>))"

text \<open>\<^verbatim>\<open>SELECT ... FROM questions WHERE id = $1\<close>.\<close>

definition SELECT_by_id :: "path_id \<Rightarrow> db \<Rightarrow> db_error + Question list" where
  "SELECT_by_id p d =
     (case id_param p of
        Inl err \<Rightarrow> Inl err
      | Inr i \<Rightarrow> Inr (filter (\<lambda>r. qid r = i) (questions d)))"

text \<open>\<^verbatim>\<open>SELECT ... FROM questions ORDER BY id\<close>.\<close>

definition SELECT_ordered :: "db \<Rightarrow> Question list" where
  "SELECT_ordered d = sort_key qid (questions d)"

text \<open>\<^verbatim>\<open>SELECT COUNT(*) FROM questions\<close>, read with \<^verbatim>\<open>parseInt\<close>.\<close>

definition COUNT :: "db \<Rightarrow> int" where
  "COUNT d = int (length (questions d))"

text \<open>
  What the declaration \<^verbatim>\<open>id SERIAL PRIMARY KEY\<close> maintains: the ids are integers of
  32 bits and no two rows share one; the sequence starts at 1 and is ahead of every id
  it has given out.
\<close>

definition primary_key :: "db \<Rightarrow> bool" where
  "primary_key d =
     (distinct (map qid (questions d)) \<and> list_all (\<lambda>r. int4 (qid r)) (questions d))"

definition sequence_ahead :: "db \<Rightarrow> bool" where
  "sequence_ahead d =
     (1 \<le> questions_id_seq d \<and> list_all (\<lambda>r. qid r < questions_id_seq d) (questions d))"

section \<open>The question service\<close>

definition internal_server_error :: response where
  "internal_server_error = respond 500 (Error ''Internal server error'')"

definition not_found :: response where
  "not_found = respond 404 (Error ''Question not found'')"

text \<open>\<^verbatim>\<open>app.get('/api/questions')\<close>\<close>

definition get_questions :: "db \<Rightarrow> response \<times> db" where
  "get_questions d = (respond 200 (Rows (SELECT_ordered d)), d)"

text \<open>\<^verbatim>\<open>app.get('/api/questions/:id')\<close>\<close>

definition get_question :: "path_id \<Rightarrow> db \<Rightarrow> response \<times> db" where
  "get_question p d =
     (case SELECT_by_id p d of
        Inl err \<Rightarrow> (internal_server_error, d)
      | Inr [] \<Rightarrow> (not_found, d)
      | Inr (r # _) \<Rightarrow> (respond 200 (Row r), d))"

text \<open>
  The validation that \<^verbatim>\<open>app.post\<close> and \<^verbatim>\<open>app.put\<close> both start with:
  \<^verbatim>\<open>
  if (!question || !options || !Array.isArray(options) || options.length !== 4)
    return res.status(400).json({ error: 'Question must have 4 options' });
  if (correctAnswer < 0 || correctAnswer > 3)
    return res.status(400).json({ error: 'Correct answer must be between 0 and 3' });
  \<close>
  The two conditions, as they are written:
\<close>

definition options_rejected :: "body \<Rightarrow> bool" where
  "options_rejected b =
     (\<not> truthy_string (b_question b) \<or> \<not> truthy_options (b_options b)
      \<or> \<not> isArray (b_options b) \<or> js_length (b_options b) \<noteq> Some 4)"

definition answer_rejected :: "body \<Rightarrow> bool" where
  "answer_rejected b = (js_lt (b_correctAnswer b) 0 \<or> js_gt (b_correctAnswer b) 3)"

text \<open>
  The result of the validation is the response of an early return, or the array
  that \<^verbatim>\<open>options\<close> then is, with which the handler goes on. The first condition
  is decided on the shape of \<^verbatim>\<open>options\<close>; \<open>validation_as_written\<close> below shows that
  this is the condition of the source.
\<close>

definition validation :: "body \<Rightarrow> response + string list" where
  "validation b =
     (case b_options b of
        Val (OArray os) \<Rightarrow>
          if \<not> truthy_string (b_question b) \<or> length os \<noteq> 4
          then Inl (respond 400 (Error ''Question must have 4 options''))
          else if answer_rejected b
          then Inl (respond 400 (Error ''Correct answer must be between 0 and 3''))
          else Inr os
      | _ \<Rightarrow> Inl (respond 400 (Error ''Question must have 4 options'')))"

text \<open>\<^verbatim>\<open>app.post('/api/questions')\<close>\<close>

definition post_questions :: "body \<Rightarrow> db \<Rightarrow> response \<times> db" where
  "post_questions b d =
     (case validation b of
        Inl r \<Rightarrow> (r, d)
      | Inr os \<Rightarrow>
          (case INSERT (b_question b) (Val os) (b_correctAnswer b) (b_explanation b) d of
             (Inl err, d') \<Rightarrow> (internal_server_error, d')
           | (Inr r, d') \<Rightarrow> (respond 201 (Row r), d')))"

text \<open>\<^verbatim>\<open>app.put('/api/questions/:id')\<close>\<close>

definition put_question :: "path_id \<Rightarrow> body \<Rightarrow> db \<Rightarrow> response \<times> db" where
  "put_question p b d =
     (case validation b of
        Inl r \<Rightarrow> (r, d)
      | Inr os \<Rightarrow>
          (case UPDATE (b_question b) (Val os) (b_correctAnswer b) (b_explanation b) p d of
             (Inl err, d') \<Rightarrow> (internal_server_error, d')
           | (Inr [], d') \<Rightarrow> (not_found, d')
           | (Inr (r # _), d') \<Rightarrow> (respond 200 (Row r), d')))"

text \<open>\<^verbatim>\<open>app.delete('/api/questions/:id')\<close>\<close>

definition delete_question :: "path_id \<Rightarrow> db \<Rightarrow> response \<times> db" where
  "delete_question p d =
     (if COUNT d \<le> 1
      then (respond 400 (Error ''Cannot delete the last question''), d)
      else
        (case DELETE p d of
           (Inl err, d') \<Rightarrow> (internal_server_error, d')
         | (Inr [], d') \<Rightarrow> (not_found, d')
         | (Inr (r # _), d') \<Rightarrow>
             (respond 200 (Message ''Question deleted successfully''), d')))"

text \<open>
  \<^verbatim>\<open>initializeDatabase\<close> (the same in \<^verbatim>\<open>src/server/server.ts\<close> and in the second
  server file): \<^verbatim>\<open>CREATE TABLE IF NOT EXISTS\<close> makes an empty table with a fresh
  sequence when there is none (\<open>None\<close>); then the sample questions are inserted, one
  query each, when \<^verbatim>\<open>COUNT(*)\<close> is 0. A query that fails is rethrown and ends the
  loop: the result is the error, if any, and the table as it then is.
\<close>

definition CREATE_TABLE_IF_NOT_EXISTS :: "db option \<Rightarrow> db" where
  "CREATE_TABLE_IF_NOT_EXISTS t =
     (case t of None \<Rightarrow> \<lparr>questions = [], questions_id_seq = 1\<rparr> | Some d \<Rightarrow> d)"

record sample =
  s_question :: string
  s_options :: "string list"
  s_correct_answer :: rat
  s_explanation :: string

definition sampleQuestions :: "sample list" where
  "sampleQuestions =
     [\<lparr>s_question = ''What is the capital of France?'',
       s_options = [''London'', ''Berlin'', ''Paris'', ''Madrid''],
       s_correct_answer = 2,
       s_explanation = ''Paris has been the capital of France since the 12th century.''\<rparr>,
      \<lparr>s_question = ''Which planet is known as the Red Planet?'',
       s_options = [''Venus'', ''Mars'', ''Jupiter'', ''Saturn''],
       s_correct_answer = 1,
       s_explanation = ''Mars appears red due to iron oxide (rust) on its surface.''\<rparr>,
      \<lparr>s_question = ''What is the largest mammal in the world?'',
       s_options = [''African Elephant'', ''Blue Whale'', ''Giraffe'', ''Polar Bear''],
       s_correct_answer = 1,
       s_explanation = ''The Blue Whale can grow up to 100 feet long and weigh 200 tons.''\<rparr>]"

fun insert_samples :: "sample list \<Rightarrow> db \<Rightarrow> db_error option \<times> db" where
  "insert_samples [] d = (None, d)"
| "insert_samples (q # qs) d =
     (case INSERT (Val (s_question q)) (Val (s_options q)) (Val (s_correct_answer q))
             (Val (s_explanation q)) d of
        (Inl err, d') \<Rightarrow> (Some err, d')
      | (Inr r, d') \<Rightarrow> insert_samples qs d')"

definition initializeDatabase :: "db option \<Rightarrow> db_error option \<times> db" where
  "initializeDatabase t =
     (let d = CREATE_TABLE_IF_NOT_EXISTS t
      in if COUNT d = 0 then insert_samples sampleQuestions d else (None, d))"

text \<open>
  \<^verbatim>\<open>app.use(express.json())\<close> stands before the routes: it reads the body of a request
  and hands the parsed value on as \<^verbatim>\<open>req.body\<close>, but a body of more than 100kb
  (102400 bytes) it refuses, and Express answers with status 413.
\<close>

definition express_json :: "nat \<Rightarrow> response option" where
  "express_json bytes = (if 102400 < bytes then Some (respond 413 ErrorPage) else None)"

text \<open>The requests to the routes of the service; one with a body carries the number of
  bytes of the body as sent and the body as parsed.\<close>

datatype request =
    GET_questions
  | GET_question path_id
  | POST_questions nat body
  | PUT_question path_id nat body
  | DELETE_question path_id

fun server :: "request \<Rightarrow> db \<Rightarrow> response \<times> db" where
  "server GET_questions d = get_questions d"
| "server (GET_question p) d = get_question p d"
| "server (POST_questions n b) d =
     (case express_json n of Some r \<Rightarrow> (r, d) | None \<Rightarrow> post_questions b d)"
| "server (PUT_question p n b) d =
     (case express_json n of Some r \<Rightarrow> (r, d) | None \<Rightarrow> put_question p b d)"
| "server (DELETE_question p) d = delete_question p d"

section \<open>The quiz client\<close>

text \<open>The state of the component \<^verbatim>\<open>QuizGame\<close> of \<^verbatim>\<open>src/App.tsx\<close>: one field for each
  \<^verbatim>\<open>useState\<close>.\<close>

record QuizGame =
  quizQuestions :: "Question list"
  currentQuestion :: int
  selectedAnswer :: "int option"
  score :: int
  showResult :: bool
  quizCompleted :: bool
  editMode :: bool
  editingQuestion :: "Question option"
  loading :: bool
  error :: "string option"

definition useState :: QuizGame where
  "useState =
     \<lparr>quizQuestions = [], currentQuestion = 0, selectedAnswer = None, score = 0,
      showResult = False, quizCompleted = False, editMode = False,
      editingQuestion = None, loading = True, error = None\<rparr>"

text \<open>
  \<^verbatim>\<open>fetchQuestions\<close>, from the call to the end of its \<^verbatim>\<open>finally\<close> block, against
  the service on the store \<open>d\<close> (the service is taken to be reachable). A response
  that is \<^verbatim>\<open>ok\<close> carries the rows (\<open>get_questions\<close> sends nothing else with a 200);
  any other body would leave the list as it is here.
\<close>

definition fetchQuestions :: "QuizGame \<Rightarrow> db \<Rightarrow> QuizGame \<times> db" where
  "fetchQuestions s d =
     (case server GET_questions d of
        (r, d') \<Rightarrow>
          if \<not> ok r
          then (s\<lparr>error := Some ''Failed to fetch questions'', loading := False\<rparr>, d')
          else
            (case json r of
               Rows qs \<Rightarrow> (s\<lparr>error := None, quizQuestions := qs, loading := False\<rparr>, d')
             | _ \<Rightarrow> (s\<lparr>error := None, loading := False\<rparr>, d')))"

text \<open>The state the quiz starts from once the questions \<open>qs\<close> are loaded.\<close>

definition ready :: "Question list \<Rightarrow> QuizGame" where
  "ready qs = useState\<lparr>quizQuestions := qs, loading := False\<rparr>"

subsection \<open>Playing\<close>

datatype js_error = TypeError

definition handleAnswerSelect :: "int \<Rightarrow> QuizGame \<Rightarrow> QuizGame" where
  "handleAnswerSelect optionIndex s = s\<lparr>selectedAnswer := Some optionIndex\<rparr>"

text \<open>\<^verbatim>\<open>quizQuestions[currentQuestion]\<close> is \<^verbatim>\<open>undefined\<close> outside the array, and reading
  \<^verbatim>\<open>.correctAnswer\<close> of it throws.\<close>

definition handleSubmit :: "QuizGame \<Rightarrow> js_error + QuizGame" where
  "handleSubmit s =
     (case selectedAnswer s of
        None \<Rightarrow> Inr s
      | Some a \<Rightarrow>
          if 0 \<le> currentQuestion s \<and> currentQuestion s < int (length (quizQuestions s))
          then
            Inr ((if a = correctAnswer (quizQuestions s ! nat (currentQuestion s))
                  then s\<lparr>score := score s + 1\<rparr> else s)\<lparr>showResult := True\<rparr>)
          else Inl TypeError)"

definition handleNext :: "QuizGame \<Rightarrow> QuizGame" where
  "handleNext s =
     (if currentQuestion s < int (length (quizQuestions s)) - 1
      then s\<lparr>currentQuestion := currentQuestion s + 1, selectedAnswer := None,
             showResult := False\<rparr>
      else s\<lparr>quizCompleted := True\<rparr>)"

definition handleRestart :: "QuizGame \<Rightarrow> QuizGame" where
  "handleRestart s =
     s\<lparr>currentQuestion := 0, selectedAnswer := None, score := 0, showResult := False,
       quizCompleted := False\<rparr>"

text \<open>
  What the component renders, in the order of its \<^verbatim>\<open>return\<close>s. The quiz screen reads
  \<^verbatim>\<open>question.question\<close> of \<^verbatim>\<open>quizQuestions[currentQuestion]\<close>, which throws when there
  is no such question. (\<^verbatim>\<open>error && ...\<close> is false on the empty string too.)
\<close>

datatype screen =
  LoadingScreen | ErrorScreen | EditQuestionForm | CompletionScreen | QuizScreen | RenderError

definition render :: "QuizGame \<Rightarrow> screen" where
  "render s =
     (if loading s then LoadingScreen
      else if (error s \<noteq> None \<and> error s \<noteq> Some []) \<and> length (quizQuestions s) = 0
      then ErrorScreen
      else if editMode s \<and> editingQuestion s \<noteq> None then EditQuestionForm
      else if quizCompleted s then CompletionScreen
      else if 0 \<le> currentQuestion s \<and> currentQuestion s < int (length (quizQuestions s))
      then QuizScreen
      else RenderError)"

text \<open>
  The actions of a player, and when the rendered page offers them: the option
  buttons call \<^verbatim>\<open>handleAnswerSelect(index)\<close> only while \<^verbatim>\<open>!showResult\<close>, the submit
  button exists while \<^verbatim>\<open>!showResult && selectedAnswer !== null\<close>, the next button
  while \<^verbatim>\<open>showResult\<close>, and "Play Again" is on the completion screen.
\<close>

datatype action = Select int | Submit | Next | Restart

fun offered :: "action \<Rightarrow> QuizGame \<Rightarrow> bool" where
  "offered (Select i) s =
     (render s = QuizScreen \<and> \<not> showResult s \<and> 0 \<le> i
      \<and> i < int (length (options (quizQuestions s ! nat (currentQuestion s)))))"
| "offered Submit s = (render s = QuizScreen \<and> \<not> showResult s \<and> selectedAnswer s \<noteq> None)"
| "offered Next s = (render s = QuizScreen \<and> showResult s)"
| "offered Restart s = (render s = CompletionScreen)"

fun handler :: "action \<Rightarrow> QuizGame \<Rightarrow> js_error + QuizGame" where
  "handler (Select i) s = Inr (handleAnswerSelect i s)"
| "handler Submit s = handleSubmit s"
| "handler Next s = Inr (handleNext s)"
| "handler Restart s = Inr (handleRestart s)"

text \<open>One transition of the quiz machine: an action that the page offers, and whose
  handler returns.\<close>

definition step :: "action \<Rightarrow> QuizGame \<Rightarrow> QuizGame option" where
  "step a s =
     (if offered a s
      then (case handler a s of Inl err \<Rightarrow> None | Inr s' \<Rightarrow> Some s')
      else None)"

fun run :: "action list \<Rightarrow> QuizGame \<Rightarrow> QuizGame option" where
  "run [] s = Some s"
| "run (a # as) s = (case step a s of None \<Rightarrow> None | Some s' \<Rightarrow> run as s')"

text \<open>A quiz run: for each question in turn, select an option, submit, go on.\<close>

definition play :: "int list \<Rightarrow> action list" where
  "play selections = concat (map (\<lambda>a. [Select a, Submit, Next]) selections)"

subsection \<open>The completion screen\<close>

text \<open>
  \<^verbatim>\<open>Math.round((score / quizQuestions.length) * 100)\<close> is computed on JavaScript
  numbers, which are IEEE 754 doubles: the quotient and the product are each
  rounded to the nearest double, a tie going to the even significand. \<open>double x\<close>
  is the double nearest to the rational \<open>x\<close>: a significand of 53 bits, exponents
  from \<open>-1022\<close> (below it the spacing stays \<open>2^-1074\<close>), and no finite value from
  \<open>2^1024\<close> on (\<open>None\<close>: the result is an infinity).
\<close>

text \<open>The number of binary digits of a positive integer.\<close>

function bitlen :: "int \<Rightarrow> nat" where
  "bitlen n = (if n \<le> 0 then 0 else Suc (bitlen (n div 2)))"
  by pat_completeness auto
termination
  by (relation "measure nat") auto

declare bitlen.simps [simp del]

definition pow2 :: "int \<Rightarrow> rat" where
  "pow2 k = (if 0 \<le> k then 2 ^ nat k else 1 / 2 ^ nat (- k))"

text \<open>For \<open>x > 0\<close>, the exponent \<open>e\<close> with \<open>2^e \<le> x < 2^(e+1)\<close>.\<close>

definition ilog2 :: "rat \<Rightarrow> int" where
  "ilog2 x =
     (case quotient_of x of
        (p, q) \<Rightarrow>
          let k = int (bitlen p) - int (bitlen q)
          in if pow2 k \<le> x then k else k - 1)"

definition round_half_even :: "rat \<Rightarrow> int" where
  "round_half_even x =
     (let f = \<lfloor>x\<rfloor>; r = x - of_int f
      in if r < 1 / 2 then f
         else if 1 / 2 < r then f + 1
         else if even f then f else f + 1)"

definition double :: "rat \<Rightarrow> rat option" where
  "double x =
     (if x = 0 then Some 0
      else
        let e = max (ilog2 \<bar>x\<bar>) (- 1022);
            q = pow2 (e - 52);
            r = sgn x * of_int (round_half_even (\<bar>x\<bar> / q)) * q
        in if pow2 1024 \<le> \<bar>r\<bar> then None else Some r)"

text \<open>\<^verbatim>\<open>Math.round\<close>: the nearest integer, the larger one of two that are equally
  near.\<close>

definition Math_round :: "rat \<Rightarrow> int" where
  "Math_round x = \<lfloor>x + 1 / 2\<rfloor>"

text \<open>
  The percentage that the completion screen shows, for a score and a number of
  questions that are integers below \<open>2^53\<close> (as doubles they are then exact; the
  length of an array is below \<open>2^32\<close>). \<open>None\<close>: what is shown is not an integer
  (\<^verbatim>\<open>NaN\<close> or an infinity, as for a division by 0).
\<close>

definition percent :: "int \<Rightarrow> int \<Rightarrow> int option" where
  "percent sc n =
     (if n = 0 then None
      else
        (case double (of_int sc / of_int n) of
           None \<Rightarrow> None
         | Some y \<Rightarrow>
             (case double (y * 100) of
                None \<Rightarrow> None
              | Some z \<Rightarrow> Some (Math_round z))))"

definition percentage :: "QuizGame \<Rightarrow> int option" where
  "percentage s = percent (score s) (int (length (quizQuestions s)))"

subsection \<open>Editing\<close>

text \<open>\<^verbatim>\<open>Math.max(...xs)\<close> is \<^verbatim>\<open>-Infinity\<close> when there is no argument;
  \<^verbatim>\<open>Math.max(v, ...xs)\<close> has at least the argument \<open>v\<close>.\<close>

datatype number = NegInfinity | Finite int

fun Math_max_from :: "int \<Rightarrow> int list \<Rightarrow> int" where
  "Math_max_from v [] = v"
| "Math_max_from v (x # xs) = Math_max_from (max v x) xs"

fun Math_max :: "int list \<Rightarrow> number" where
  "Math_max [] = NegInfinity"
| "Math_max (x # xs) = Finite (Math_max_from x xs)"

fun greater :: "int \<Rightarrow> number \<Rightarrow> bool" where
  "greater i NegInfinity = True"
| "greater i (Finite m) = (m < i)"

definition handleEditQuestion :: "Question \<Rightarrow> QuizGame \<Rightarrow> QuizGame" where
  "handleEditQuestion q s = s\<lparr>editingQuestion := Some q, editMode := True\<rparr>"

definition handleAddQuestion :: "QuizGame \<Rightarrow> QuizGame" where
  "handleAddQuestion s =
     s\<lparr>editingQuestion :=
         Some \<lparr>qid = Math_max_from 0 (map qid (quizQuestions s)) + 1,
               question = ''New Question'',
               options = [''Option 1'', ''Option 2'', ''Option 3'', ''Option 4''],
               correctAnswer = 0,
               explanation = ''Explanation for the new question''\<rparr>,
       editMode := True\<rparr>"

definition handleCancelEdit :: "QuizGame \<Rightarrow> QuizGame" where
  "handleCancelEdit s = s\<lparr>editMode := False, editingQuestion := None, error := None\<rparr>"

text \<open>
  The body that \<^verbatim>\<open>handleSaveQuestion\<close> sends is
  \<^verbatim>\<open>JSON.stringify({question, options, correctAnswer, explanation})\<close> of the draft, in
  UTF-8. In it a quote, a backslash and the control characters with a short escape
  take two bytes, the other control characters six (\<^verbatim>\<open>\u00XX\<close>), a character from
  U+0080 two, and any other character one; an integer (below \<open>10^21\<close>) is written with
  its decimal digits.
\<close>

definition char_bytes :: "char \<Rightarrow> nat" where
  "char_bytes c =
     (let n = (of_char c :: nat)
      in if n = 34 \<or> n = 92 then 2
         else if n = 8 \<or> n = 9 \<or> n = 10 \<or> n = 12 \<or> n = 13 then 2
         else if n < 32 then 6
         else if n < 128 then 1
         else 2)"

definition string_bytes :: "string \<Rightarrow> nat" where
  "string_bytes s = 2 + sum_list (map char_bytes s)"

function digits :: "int \<Rightarrow> nat" where
  "digits n = (if n < 10 then 1 else Suc (digits (n div 10)))"
  by pat_completeness auto
termination
  by (relation "measure nat") auto

declare digits.simps [simp del]

definition number_bytes :: "int \<Rightarrow> nat" where
  "number_bytes i = (if i < 0 then 1 + digits (- i) else digits i)"

definition array_bytes :: "string list \<Rightarrow> nat" where
  "array_bytes ss = 2 + sum_list (map string_bytes ss) + (length ss - 1)"

definition stringify_bytes :: "Question \<Rightarrow> nat" where
  "stringify_bytes q =
     12 + string_bytes (question q) + 11 + array_bytes (options q)
     + 17 + number_bytes (correctAnswer q) + 15 + string_bytes (explanation q) + 1"

text \<open>The parsed body of that request.\<close>

definition draft_body :: "Question \<Rightarrow> body" where
  "draft_body q =
     \<lparr>b_question = Val (question q), b_options = Val (OArray (options q)),
      b_correctAnswer = Val (of_int (correctAnswer q)), b_explanation = Val (explanation q)\<rparr>"

text \<open>The request that \<^verbatim>\<open>handleSaveQuestion\<close> sends for the draft \<open>q\<close>: its \<^verbatim>\<open>method\<close>
  and \<^verbatim>\<open>url\<close> are chosen by the same test.\<close>

definition save_request :: "QuizGame \<Rightarrow> Question \<Rightarrow> request" where
  "save_request s q =
     (if greater (qid q) (Math_max (map qid (quizQuestions s)))
      then POST_questions (stringify_bytes q) (draft_body q)
      else PUT_question (IntegerText (qid q)) (stringify_bytes q) (draft_body q))"

text \<open>\<^verbatim>\<open>handleSaveQuestion\<close>, from the click to the end of the handler, against the
  service on the store \<open>d\<close>.\<close>

definition handleSaveQuestion :: "QuizGame \<Rightarrow> db \<Rightarrow> QuizGame \<times> db" where
  "handleSaveQuestion s d =
     (case editingQuestion s of
        None \<Rightarrow> (s, d)
      | Some q \<Rightarrow>
          (case server (save_request s q) d of
             (r, d') \<Rightarrow>
               if \<not> ok r
               then (s\<lparr>error := Some ''Failed to save question''\<rparr>, d')
               else
                 (case fetchQuestions (s\<lparr>error := None\<rparr>) d' of
                    (s', d'') \<Rightarrow> (s'\<lparr>editMode := False, editingQuestion := None\<rparr>, d''))))"

text \<open>
  \<^verbatim>\<open>handleDeleteQuestion\<close>, from the click to the end of the handler. The test
  \<^verbatim>\<open>currentQuestion >= quizQuestions.length - 1\<close> after the fetch reads the list of the
  render in which the handler was made: the list before the fetch.
\<close>

definition handleDeleteQuestion :: "int \<Rightarrow> QuizGame \<Rightarrow> db \<Rightarrow> QuizGame \<times> db" where
  "handleDeleteQuestion questionId s d =
     (if length (quizQuestions s) \<le> 1 then (s, d)
      else
        (case server (DELETE_question (IntegerText questionId)) d of
           (r, d') \<Rightarrow>
             if \<not> ok r
             then (s\<lparr>error := Some ''Failed to delete question''\<rparr>, d')
             else
               (case fetchQuestions (s\<lparr>error := None\<rparr>) d' of
                  (s', d'') \<Rightarrow>
                    ((if currentQuestion s \<ge> int (length (quizQuestions s)) - 1
                      then s'\<lparr>currentQuestion := 0, selectedAnswer := None,
                              showResult := False\<rparr>
                      else s')\<lparr>editMode := False, editingQuestion := None\<rparr>, d''))))"

section \<open>Notions used in the statements\<close>


text \<open>The store after the first start of the server, and that store after the second
  and the third question have been deleted.\<close>

definition seeded :: db where
  "seeded = snd (initializeDatabase None)"

definition single :: db where
  "single =
     snd (delete_question (IntegerText 3) (snd (delete_question (IntegerText 2) seeded)))"


text \<open>The number of positions at which the selection is the correct answer of the
  question.\<close>

definition count_correct :: "int list \<Rightarrow> Question list \<Rightarrow> int" where
  "count_correct selections qs =
     int (length (filter (\<lambda>(a, q). a = correctAnswer q) (zip selections qs)))"

text \<open>The client shows question \<open>k\<close> of \<open>qs\<close> and waits for an answer.\<close>

definition answering :: "Question list \<Rightarrow> nat \<Rightarrow> QuizGame \<Rightarrow> bool" where
  "answering qs k s =
     (quizQuestions s = qs \<and> currentQuestion s = int k \<and> \<not> showResult s
      \<and> \<not> quizCompleted s \<and> \<not> editMode s \<and> \<not> loading s)"

text \<open>What the transitions of the quiz keep true, for the questions \<open>qs\<close>.\<close>

definition quiz_inv :: "Question list \<Rightarrow> QuizGame \<Rightarrow> bool" where
  "quiz_inv qs s =
     (quizQuestions s = qs \<and> 0 \<le> currentQuestion s \<and> 0 \<le> score s
      \<and> score s \<le> currentQuestion s + (if showResult s then 1 else 0)
      \<and> currentQuestion s + (if showResult s then 1 else 0) \<le> int (length qs))"

text \<open>A bank of forty questions, each as "Add New Question" drafts it, with the ids
  1 to 40; and the answers of a player who is right on the first 23 of them.\<close>

definition forty_questions :: "Question list" where
  "forty_questions =
     map (\<lambda>i. \<lparr>qid = i, question = ''New Question'',
                options = [''Option 1'', ''Option 2'', ''Option 3'', ''Option 4''],
                correctAnswer = 0, explanation = ''Explanation for the new question''\<rparr>)
       [1..40]"

definition twenty_three_right :: "int list" where
  "twenty_three_right = replicate 23 0 @ replicate 17 1"

text \<open>A client that loaded the three seeded questions, answered the first two
  correctly, and then pressed "Add New Question".\<close>

definition at_third_question :: QuizGame where
  "at_third_question = (ready (questions seeded))\<lparr>currentQuestion := 2, score := 2\<rparr>"

definition adding_at_third_question :: QuizGame where
  "adding_at_third_question = handleAddQuestion at_third_question"

section \<open>Properties of the question service\<close>

subsection \<open>The store\<close>

lemma storable_samples:
  "list_all (\<lambda>q. storable (s_question q) \<and> list_all storable (s_options q)
                 \<and> storable (s_explanation q)) sampleQuestions"
  by (simp add: sampleQuestions_def storable_def)

lemma bind_values:
  assumes "storable q" and "list_all storable os" and "int4 c" and "storable e"
  shows "bind (Val q) (Val os) (Val (rat_of_int c)) (Val e) = Inr (Some q, Some os, Some c, Some e)"
  using assms by (simp add: bind_def text_param_def text_array_param_def int4_param_def)

lemma INSERT_values:
  assumes "storable q" and "list_all storable os" and "int4 c" and "storable e"
    and "questions_id_seq d \<le> 2147483647"
    and "questions_id_seq d \<notin> set (map qid (questions d))"
  shows "INSERT (Val q) (Val os) (Val (rat_of_int c)) (Val e) d =
           (Inr \<lparr>qid = questions_id_seq d, question = q, options = os, correctAnswer = c,
                 explanation = e\<rparr>,
            d\<lparr>questions := questions d @
                 [\<lparr>qid = questions_id_seq d, question = q, options = os, correctAnswer = c,
                   explanation = e\<rparr>],
               questions_id_seq := questions_id_seq d + 1\<rparr>)"
  using assms(5,6) by (simp add: INSERT_def bind_values [OF assms(1-4)] Let_def)

lemma insert_samples_empty:
  assumes "questions d = []" and "questions_id_seq d \<le> 2147483645"
  shows "insert_samples sampleQuestions d =
     (None,
      \<lparr>questions =
         [\<lparr>qid = questions_id_seq d, question = ''What is the capital of France?'',
           options = [''London'', ''Berlin'', ''Paris'', ''Madrid''], correctAnswer = 2,
           explanation = ''Paris has been the capital of France since the 12th century.''\<rparr>,
          \<lparr>qid = questions_id_seq d + 1, question = ''Which planet is known as the Red Planet?'',
           options = [''Venus'', ''Mars'', ''Jupiter'', ''Saturn''], correctAnswer = 1,
           explanation = ''Mars appears red due to iron oxide (rust) on its surface.''\<rparr>,
          \<lparr>qid = questions_id_seq d + 2, question = ''What is the largest mammal in the world?'',
           options = [''African Elephant'', ''Blue Whale'', ''Giraffe'', ''Polar Bear''],
           correctAnswer = 1,
           explanation = ''The Blue Whale can grow up to 100 feet long and weigh 200 tons.''\<rparr>],
       questions_id_seq = questions_id_seq d + 3\<rparr>)"
  using assms
  by (cases d)
     (simp add: sampleQuestions_def INSERT_def bind_def text_param_def text_array_param_def
       int4_param_def int4_def storable_def Let_def)

lemma seeded_eq:
  "seeded =
     \<lparr>questions =
        [\<lparr>qid = 1, question = ''What is the capital of France?'',
          options = [''London'', ''Berlin'', ''Paris'', ''Madrid''], correctAnswer = 2,
          explanation = ''Paris has been the capital of France since the 12th century.''\<rparr>,
         \<lparr>qid = 2, question = ''Which planet is known as the Red Planet?'',
          options = [''Venus'', ''Mars'', ''Jupiter'', ''Saturn''], correctAnswer = 1,
          explanation = ''Mars appears red due to iron oxide (rust) on its surface.''\<rparr>,
         \<lparr>qid = 3, question = ''What is the largest mammal in the world?'',
          options = [''African Elephant'', ''Blue Whale'', ''Giraffe'', ''Polar Bear''],
          correctAnswer = 1,
          explanation = ''The Blue Whale can grow up to 100 feet long and weigh 200 tons.''\<rparr>],
      questions_id_seq = 4\<rparr>"
  by (simp add: seeded_def initializeDatabase_def CREATE_TABLE_IF_NOT_EXISTS_def COUNT_def
      insert_samples_empty)

lemma single_eq:
  "single =
     \<lparr>questions =
        [\<lparr>qid = 1, question = ''What is the capital of France?'',
          options = [''London'', ''Berlin'', ''Paris'', ''Madrid''], correctAnswer = 2,
          explanation = ''Paris has been the capital of France since the 12th century.''\<rparr>],
      questions_id_seq = 4\<rparr>"
  by (simp add: single_def seeded_eq delete_question_def DELETE_def COUNT_def int4_def)

lemma sequence_ahead_fresh:
  "sequence_ahead d \<Longrightarrow> questions_id_seq d \<notin> set (map qid (questions d))"
  by (auto simp: sequence_ahead_def list_all_iff)

lemma filter_fresh:
  "i \<notin> set (map qid xs) \<Longrightarrow> filter (\<lambda>r. qid r = i) xs = []"
  by (auto simp: filter_empty_conv)

lemma filter_present:
  "i \<in> set (map qid xs) \<Longrightarrow> filter (\<lambda>r. qid r = i) xs \<noteq> []"
  by (auto simp: filter_empty_conv)

lemma primary_key_int4:
  "primary_key d \<Longrightarrow> i \<in> set (map qid (questions d)) \<Longrightarrow> int4 i"
  by (auto simp: primary_key_def list_all_iff)

lemma length_filter_other:
  "distinct (map f xs) \<Longrightarrow> i \<in> set (map f xs) \<Longrightarrow>
     length (filter (\<lambda>r. f r \<noteq> i) xs) + 1 = length xs"
proof (induction xs)
  case Nil
  then show ?case by simp
next
  case (Cons x xs)
  show ?case
  proof (cases "f x = i")
    case True
    with Cons.prems have "i \<notin> set (map f xs)" by auto
    then have "filter (\<lambda>r. f r \<noteq> i) xs = xs"
      by (induction xs) auto
    with True show ?thesis by simp
  next
    case False
    with Cons show ?thesis by auto
  qed
qed



text \<open>Every request keeps what the declaration of the id column maintains, and the
  seeded store has it.\<close>

lemma INSERT_store_inv:
  assumes "primary_key d" and "sequence_ahead d"
  shows "primary_key (snd (INSERT q os c e d)) \<and> sequence_ahead (snd (INSERT q os c e d))"
proof -
  from assms(2) have fresh: "questions_id_seq d \<notin> set (map qid (questions d))"
    by (rule sequence_ahead_fresh)
  have mono: "list_all (\<lambda>r. qid r < questions_id_seq d + 1) (questions d)"
    using assms(2) by (auto simp: sequence_ahead_def list_all_iff)
  from assms fresh mono show ?thesis
    by (auto simp: INSERT_def Let_def primary_key_def sequence_ahead_def int4_def
        split: sum.splits option.splits prod.splits)
qed

lemma UPDATE_store_inv:
  assumes "primary_key d" and "sequence_ahead d"
  shows "primary_key (snd (UPDATE q os c e p d)) \<and> sequence_ahead (snd (UPDATE q os c e p d))"
proof -
  have ids: "qid \<circ> (\<lambda>r. if qid r = i then r\<lparr>question := q', options := os',
                 correctAnswer := c', explanation := e'\<rparr> else r) = qid"
    for q' os' c' e' i
    by (rule ext) simp
  from assms show ?thesis
    by (auto simp: UPDATE_def Let_def primary_key_def sequence_ahead_def ids list_all_iff
        split: sum.splits option.splits prod.splits)
qed

lemma DELETE_store_inv:
  assumes "primary_key d" and "sequence_ahead d"
  shows "primary_key (snd (DELETE p d)) \<and> sequence_ahead (snd (DELETE p d))"
  using assms
  by (auto simp: DELETE_def primary_key_def sequence_ahead_def distinct_map_filter list_all_iff
      split: sum.splits)

lemma post_questions_store_inv:
  assumes "primary_key d" and "sequence_ahead d"
  shows "primary_key (snd (post_questions b d)) \<and> sequence_ahead (snd (post_questions b d))"
proof (cases "validation b")
  case (Inl r)
  with assms show ?thesis by (simp add: post_questions_def)
next
  case (Inr os)
  obtain x d' where i: "INSERT (b_question b) (Val os) (b_correctAnswer b) (b_explanation b) d = (x, d')"
    by (cases "INSERT (b_question b) (Val os) (b_correctAnswer b) (b_explanation b) d")
  with INSERT_store_inv [OF assms, of "b_question b" "Val os" "b_correctAnswer b" "b_explanation b"]
  have "primary_key d' \<and> sequence_ahead d'" by simp
  with i Inr show ?thesis
    by (cases x) (simp_all add: post_questions_def)
qed

lemma put_question_store_inv:
  assumes "primary_key d" and "sequence_ahead d"
  shows "primary_key (snd (put_question p b d)) \<and> sequence_ahead (snd (put_question p b d))"
proof (cases "validation b")
  case (Inl r)
  with assms show ?thesis by (simp add: put_question_def)
next
  case (Inr os)
  obtain x d' where u: "UPDATE (b_question b) (Val os) (b_correctAnswer b) (b_explanation b) p d = (x, d')"
    by (cases "UPDATE (b_question b) (Val os) (b_correctAnswer b) (b_explanation b) p d")
  with UPDATE_store_inv [OF assms, of "b_question b" "Val os" "b_correctAnswer b" "b_explanation b" p]
  have "primary_key d' \<and> sequence_ahead d'" by simp
  with u Inr show ?thesis
    by (cases x) (simp_all add: put_question_def split: list.splits)
qed

lemma server_store_inv:
  assumes "primary_key d" and "sequence_ahead d"
  shows "primary_key (snd (server req d)) \<and> sequence_ahead (snd (server req d))"
proof (cases req)
  case GET_questions
  with assms show ?thesis by (simp add: get_questions_def)
next
  case (GET_question p)
  with assms show ?thesis by (simp add: get_question_def split: sum.splits list.splits)
next
  case (POST_questions n b)
  with assms post_questions_store_inv [OF assms, of b] show ?thesis
    by (simp split: option.splits)
next
  case (PUT_question p n b)
  with assms put_question_store_inv [OF assms, of p b] show ?thesis
    by (simp split: option.splits)
next
  case (DELETE_question p)
  obtain rs d' where dl: "DELETE p d = (rs, d')" by (cases "DELETE p d")
  with DELETE_store_inv [OF assms, of p] have "primary_key d' \<and> sequence_ahead d'" by simp
  with dl assms DELETE_question show ?thesis
    by (simp add: delete_question_def split: sum.splits list.splits)
qed

lemma seeded_store_inv: "primary_key seeded \<and> sequence_ahead seeded"
  by (simp add: seeded_eq primary_key_def sequence_ahead_def int4_def)

subsection \<open>Validation\<close>

text \<open>The validation is the chain of the two \<^verbatim>\<open>if\<close>s of the source; what passes
  them holds an array in \<^verbatim>\<open>options\<close>, with which the handler goes on.\<close>

lemma validation_as_written:
  "validation b =
     (if options_rejected b
      then Inl (respond 400 (Error ''Question must have 4 options''))
      else if answer_rejected b
      then Inl (respond 400 (Error ''Correct answer must be between 0 and 3''))
      else (case b_options b of Val (OArray os) \<Rightarrow> Inr os))"
  by (cases "b_options b" rule: truthy_options.cases)
     (auto simp: validation_def options_rejected_def)

lemma validation_Inl_iff:
  "(\<exists>r. validation b = Inl r) = (options_rejected b \<or> answer_rejected b)"
  by (cases "b_options b" rule: truthy_options.cases)
     (auto simp: validation_def options_rejected_def)

lemma validation_Inr:
  "validation b = Inr os \<Longrightarrow>
     b_options b = Val (OArray os) \<and> length os = 4 \<and> truthy_string (b_question b)
     \<and> \<not> answer_rejected b"
  by (auto simp: validation_def split: jsfield.splits options_json.splits if_splits)

lemma validation_Inl_status:
  "validation b = Inl r \<Longrightarrow> status r = 400"
  by (auto simp: validation_def respond_def split: jsfield.splits options_json.splits if_splits)



text \<open>A body of more than 100kb is answered with status 413 by Create and by Update,
  whatever it holds, and the store is as before.\<close>

lemma body_too_large:
  assumes "102400 < n"
  shows "status (fst (server (POST_questions n b) d)) = 413
         \<and> snd (server (POST_questions n b) d) = d
         \<and> status (fst (server (PUT_question p n b) d)) = 413
         \<and> snd (server (PUT_question p n b) d) = d"
  using assms by (simp add: express_json_def respond_def)

text \<open>A body that one of the two conditions rejects is answered with status 400 by
  Create and by Update, and the store is as before. The conditions reject every body
  whose \<^verbatim>\<open>options\<close> is not an array of four, and every body whose \<^verbatim>\<open>correctAnswer\<close>
  is a number below 0 or above 3.\<close>

lemma rejected_store_unchanged:
  assumes "options_rejected b \<or> answer_rejected b"
  shows "status (fst (post_questions b d)) = 400 \<and> snd (post_questions b d) = d
         \<and> status (fst (put_question p b d)) = 400 \<and> snd (put_question p b d) = d"
proof -
  from assms validation_Inl_iff [of b] obtain r where r: "validation b = Inl r" by blast
  from validation_Inl_status [OF r] r show ?thesis
    by (simp add: post_questions_def put_question_def)
qed

lemma number_outside_range_rejected:
  "x < 0 \<or> 3 < x \<Longrightarrow> answer_rejected (b\<lparr>b_correctAnswer := Val x\<rparr>)"
  by (simp add: answer_rejected_def js_lt_def js_gt_def)

lemma options_not_four_rejected:
  "(\<forall>os. b_options b = Val (OArray os) \<longrightarrow> length os \<noteq> 4) \<Longrightarrow> options_rejected b"
  by (cases "b_options b" rule: truthy_options.cases) (auto simp: options_rejected_def)

text \<open>A \<^verbatim>\<open>correctAnswer\<close> that is \<^verbatim>\<open>null\<close>, or a fraction inside the range, passes
  the validation like a missing one, and the query is refused: status 500.\<close>

lemma null_or_fraction_passes_validation:
  "status (fst (post_questions
      \<lparr>b_question = Val ''Q'', b_options = Val (OArray [''a'', ''b'', ''c'', ''d'']),
       b_correctAnswer = Null, b_explanation = Val ''e''\<rparr> seeded)) = 500"
  "status (fst (post_questions
      \<lparr>b_question = Val ''Q'', b_options = Val (OArray [''a'', ''b'', ''c'', ''d'']),
       b_correctAnswer = Val (3 / 2), b_explanation = Val ''e''\<rparr> seeded)) = 500"
  by (simp_all add: validation_def answer_rejected_def js_lt_def js_gt_def post_questions_def
      INSERT_def bind_def text_param_def text_array_param_def storable_def int4_param_def
      Let_def internal_server_error_def respond_def seeded_eq
      floor_eq_iff [where a = 1 and x = "3 / 2 :: rat", THEN iffD2])

subsection \<open>Delete\<close>

text \<open>
  Claim C1. On a store with exactly one row, a delete request, whatever its id, is
  answered with status 400 and the store is as before, with that row. On a store with
  at least two rows, none of them sharing an id, a delete of the id of one of them is
  answered with status 200, and the rows afterwards are the others: one fewer.
\<close>

theorem delete_question_last_row:
  "(length (questions d) = 1 \<longrightarrow>
      status (fst (delete_question p d)) = 400 \<and> snd (delete_question p d) = d)
   \<and> (2 \<le> length (questions d) \<and> primary_key d \<and> i \<in> set (map qid (questions d)) \<longrightarrow>
      status (fst (delete_question (IntegerText i) d)) = 200
      \<and> length (questions (snd (delete_question (IntegerText i) d))) + 1
          = length (questions d)
      \<and> questions (snd (delete_question (IntegerText i) d))
          = filter (\<lambda>r. qid r \<noteq> i) (questions d))"
proof (intro conjI impI)
  assume "length (questions d) = 1"
  then show "status (fst (delete_question p d)) = 400" "snd (delete_question p d) = d"
    by (simp_all add: delete_question_def COUNT_def respond_def)
next
  assume a: "2 \<le> length (questions d) \<and> primary_key d \<and> i \<in> set (map qid (questions d))"
  then have ne: "filter (\<lambda>r. qid r = i) (questions d) \<noteq> []"
    by (simp add: filter_present)
  from a have i: "int4 i" by (blast intro: primary_key_int4)
  from a have c: "\<not> COUNT d \<le> 1" by (simp add: COUNT_def)
  from ne c i show "status (fst (delete_question (IntegerText i) d)) = 200"
    by (simp add: delete_question_def DELETE_def respond_def split: list.splits)
  from ne c i show q: "questions (snd (delete_question (IntegerText i) d))
                        = filter (\<lambda>r. qid r \<noteq> i) (questions d)"
    by (simp add: delete_question_def DELETE_def split: list.splits)
  from a show "length (questions (snd (delete_question (IntegerText i) d))) + 1
                 = length (questions d)"
    unfolding q by (intro length_filter_other) (simp_all add: primary_key_def)
qed

theorem delete_question_last_row_witness:
  "length (questions single) = 1
   \<and> status (fst (delete_question (IntegerText 1) single)) = 400
   \<and> snd (delete_question (IntegerText 1) single) = single
   \<and> status (fst (delete_question OtherText single)) = 400
   \<and> 2 \<le> length (questions seeded) \<and> primary_key seeded
   \<and> 2 \<in> set (map qid (questions seeded))
   \<and> status (fst (delete_question (IntegerText 2) seeded)) = 200
   \<and> length (questions (snd (delete_question (IntegerText 2) seeded))) + 1
       = length (questions seeded)"
  using delete_question_last_row [where d = single and p = "IntegerText 1"]
    delete_question_last_row [where d = single and p = OtherText]
    delete_question_last_row [where d = seeded and i = 2]
  by (simp add: single_eq seeded_eq primary_key_def int4_def)

text \<open>
  Claim C2, as stated, fails: the check of the row count comes before the id is looked
  at. On the store with the single row of id 1, the delete of id 2, which no row has
  and which would remove nothing, is answered with the status 400 of the business rule
  and not with 404.
\<close>

theorem delete_question_absent_id_counterexample:
  "2 \<notin> set (map qid (questions single))
   \<and> status (fst (delete_question (IntegerText 2) single)) = 400
   \<and> status (fst (delete_question (IntegerText 2) single)) \<noteq> 404
   \<and> length (filter (\<lambda>r. qid r \<noteq> 2) (questions single)) = 1"
  by (simp add: single_eq delete_question_def COUNT_def respond_def)

text \<open>
  Claim C2, amended. The status of a delete request is 400 exactly when the store holds
  at most one row, whatever the id of the request. It is 500 exactly when the store
  holds at least two rows and the id of the request is not read as an integer of 32
  bits; then the store is as before. It is 404 exactly when the store holds at least
  two rows and the id is such an integer that no row has; and it is 200 exactly when
  the store holds at least two rows and the id is such an integer that a row has.
  There is no other status.
\<close>

theorem delete_question_status:
  "(status (fst (delete_question p d)) = 400 \<longleftrightarrow> length (questions d) \<le> 1)
   \<and> (status (fst (delete_question p d)) = 500 \<longleftrightarrow>
        2 \<le> length (questions d) \<and> id_param p = Inl invalid_integer)
   \<and> (status (fst (delete_question p d)) = 404 \<longleftrightarrow>
        2 \<le> length (questions d)
        \<and> (\<exists>i. id_param p = Inr i \<and> i \<notin> set (map qid (questions d))))
   \<and> (status (fst (delete_question p d)) = 200 \<longleftrightarrow>
        2 \<le> length (questions d)
        \<and> (\<exists>i. id_param p = Inr i \<and> i \<in> set (map qid (questions d))))
   \<and> status (fst (delete_question p d)) \<in> {200, 400, 404, 500}
   \<and> (status (fst (delete_question p d)) = 500 \<longrightarrow> snd (delete_question p d) = d)"
proof (cases "id_param p")
  case (Inl err)
  then have "err = invalid_integer"
    by (cases p) (simp_all split: if_splits)
  with Inl show ?thesis
    by (auto simp: delete_question_def DELETE_def COUNT_def respond_def
        internal_server_error_def)
next
  case (Inr i)
  show ?thesis
  proof (cases "i \<in> set (map qid (questions d))")
    case False
    then have "filter (\<lambda>r. qid r = i) (questions d) = []" by (rule filter_fresh)
    with False Inr show ?thesis
      by (auto simp: delete_question_def DELETE_def COUNT_def respond_def not_found_def)
  next
    case True
    then obtain r rs where "filter (\<lambda>r. qid r = i) (questions d) = r # rs"
      using filter_present [OF True] by (cases "filter (\<lambda>r. qid r = i) (questions d)") auto
    with True Inr show ?thesis
      by (auto simp: delete_question_def DELETE_def COUNT_def respond_def not_found_def)
  qed
qed

theorem delete_question_status_witness:
  "status (fst (delete_question (IntegerText 1) single)) = 400
   \<and> status (fst (delete_question (IntegerText 2147483648) seeded)) = 500
   \<and> snd (delete_question (IntegerText 2147483648) seeded) = seeded
   \<and> status (fst (delete_question OtherText seeded)) = 500
   \<and> status (fst (delete_question (IntegerText 7) seeded)) = 404
   \<and> status (fst (delete_question (IntegerText 3) seeded)) = 200"
  using delete_question_status [of "IntegerText 1" single]
    delete_question_status [of "IntegerText 2147483648" seeded]
    delete_question_status [of OtherText seeded]
    delete_question_status [of "IntegerText 7" seeded]
    delete_question_status [of "IntegerText 3" seeded]
  by (simp add: single_eq seeded_eq int4_def)

subsection \<open>Create and update\<close>

text \<open>
  Claim C3 does not hold of the code where \<^verbatim>\<open>correctAnswer\<close> is missing: both
  comparisons of the validation are false on \<^verbatim>\<open>undefined\<close>, the handler goes on to the
  query, the query is refused for the \<^verbatim>\<open>NOT NULL\<close> column, and the answer is status
  500. The theorem evaluates Create and Update on such a body, on the seeded store: the
  rows stay as they are, the status is 500 and not 400.
\<close>

theorem missing_correctAnswer_passes_validation:
  "validation \<lparr>b_question = Val ''Q'', b_options = Val (OArray [''a'', ''b'', ''c'', ''d'']),
                b_correctAnswer = Undefined, b_explanation = Val ''e''\<rparr>
     = Inr [''a'', ''b'', ''c'', ''d'']
   \<and> status (fst (post_questions
         \<lparr>b_question = Val ''Q'', b_options = Val (OArray [''a'', ''b'', ''c'', ''d'']),
          b_correctAnswer = Undefined, b_explanation = Val ''e''\<rparr> seeded)) = 500
   \<and> status (fst (put_question (IntegerText 1)
         \<lparr>b_question = Val ''Q'', b_options = Val (OArray [''a'', ''b'', ''c'', ''d'']),
          b_correctAnswer = Undefined, b_explanation = Val ''e''\<rparr> seeded)) = 500
   \<and> questions (snd (post_questions
         \<lparr>b_question = Val ''Q'', b_options = Val (OArray [''a'', ''b'', ''c'', ''d'']),
          b_correctAnswer = Undefined, b_explanation = Val ''e''\<rparr> seeded)) = questions seeded
   \<and> questions (snd (put_question (IntegerText 1)
         \<lparr>b_question = Val ''Q'', b_options = Val (OArray [''a'', ''b'', ''c'', ''d'']),
          b_correctAnswer = Undefined, b_explanation = Val ''e''\<rparr> seeded)) = questions seeded"
  by (simp add: validation_def answer_rejected_def js_lt_def js_gt_def post_questions_def
      put_question_def INSERT_def UPDATE_def bind_def text_param_def text_array_param_def
      storable_def int4_param_def int4_def Let_def seeded_eq internal_server_error_def
      respond_def)

theorem missing_correctAnswer_passes_validation_witness:
  "status (fst (post_questions
      \<lparr>b_question = Val ''Q'', b_options = Val (OArray [''a'', ''b'', ''c'', ''d'']),
       b_correctAnswer = Undefined, b_explanation = Val ''e''\<rparr> seeded)) \<noteq> 400"
  using missing_correctAnswer_passes_validation by simp

text \<open>The bodies of the examples below, as \<^verbatim>\<open>JSON.stringify\<close> writes them, have 80,
  86 and 85 bytes.\<close>

lemma stringify_bytes_examples:
  "stringify_bytes \<lparr>qid = 0, question = ''Q'', options = [''a'', ''b'', ''c'', ''d''],
                     correctAnswer = 3, explanation = ''e''\<rparr> = 80"
  "stringify_bytes \<lparr>qid = 0, question = [CHR ''Q'', CHR 0x00],
                     options = [''a'', ''b'', ''c'', ''d''], correctAnswer = 3,
                     explanation = ''e''\<rparr> = 86"
  "stringify_bytes \<lparr>qid = 0, question = ''Q'', options = [''a'', ''b'', ''c'', ''d''],
                     correctAnswer = 3, explanation = [CHR 0x00]\<rparr> = 85"
  by (simp_all add: stringify_bytes_def string_bytes_def array_bytes_def number_bytes_def
      char_bytes_def digits.simps)









subsection \<open>Bootstrap\<close>




section \<open>Properties of the quiz client\<close>

subsection \<open>Rounding to a double\<close>

lemma pow2_power_int: "pow2 k = power_int 2 k"
  by (simp add: pow2_def power_int_def inverse_eq_divide power_one_over)

lemma pow2_pos: "0 < pow2 k"
  by (simp add: pow2_power_int)

lemma pow2_add: "pow2 (a + b) = pow2 a * pow2 b"
  by (simp add: pow2_power_int power_int_add)

lemma pow2_less_iff: "pow2 a < pow2 b \<longleftrightarrow> a < b"
proof
  assume "pow2 a < pow2 b"
  show "a < b"
  proof (rule ccontr)
    assume "\<not> a < b"
    then have "b \<le> a" by simp
    then have "pow2 b \<le> pow2 a"
      unfolding pow2_power_int by (intro power_int_increasing) auto
    with \<open>pow2 a < pow2 b\<close> show False by simp
  qed
next
  assume "a < b"
  then show "pow2 a < pow2 b"
    unfolding pow2_power_int by (intro power_int_strict_increasing) auto
qed

lemma pow2_le_iff: "pow2 a \<le> pow2 b \<longleftrightarrow> a \<le> b"
  using pow2_less_iff [of b a] by (auto simp: not_less [symmetric])

lemma pow2_nat: "pow2 (int n) = 2 ^ n"
  by (simp add: pow2_def)

lemma bitlen_pos: "0 < n \<Longrightarrow> 0 < bitlen n"
  by (subst bitlen.simps) simp

lemma bitlen_bounds:
  "0 < n \<Longrightarrow> 2 ^ (bitlen n - 1) \<le> n \<and> n < 2 ^ bitlen n"
proof (induction n rule: bitlen.induct)
  case (1 n)
  show ?case
  proof (cases "n div 2 = 0")
    case True
    with "1.prems" have "n = 1" by presburger
    then show ?thesis by (simp add: bitlen.simps)
  next
    case False
    with "1.prems" have pos: "0 < n div 2" by presburger
    with "1.IH" "1.prems" have ih: "2 ^ (bitlen (n div 2) - 1) \<le> n div 2" "n div 2 < 2 ^ bitlen (n div 2)"
      by auto
    from bitlen_pos [OF pos] have bl: "bitlen (n div 2) = Suc (bitlen (n div 2) - 1)"
      by simp
    have e: "bitlen n = Suc (bitlen (n div 2))"
      using "1.prems" by (subst bitlen.simps) simp
    have "2 * 2 ^ (bitlen (n div 2) - 1) \<le> 2 * (n div 2)" using ih(1) by simp
    also have "\<dots> \<le> n" by presburger
    finally have lo: "2 ^ (bitlen n - 1) \<le> n"
      unfolding e using bl by (metis diff_Suc_1 power_Suc)
    have "n < 2 * (n div 2) + 2" by presburger
    also have "\<dots> \<le> 2 * 2 ^ bitlen (n div 2)" using ih(2) by simp
    finally have hi: "n < 2 ^ bitlen n"
      unfolding e by simp
    from lo hi show ?thesis by simp
  qed
qed

lemma ilog2_bounds:
  assumes "0 < x"
  shows "pow2 (ilog2 x) \<le> x \<and> x < pow2 (ilog2 x + 1)"
proof -
  obtain p q where pq: "quotient_of x = (p, q)" by (cases "quotient_of x")
  then have q: "0 < q" by (rule quotient_of_denom_pos)
  from pq have x: "x = of_int p / of_int q" by (rule quotient_of_div)
  with assms q have p: "0 < p" by (simp add: zero_less_divide_iff)
  define a where "a = bitlen p"
  define b where "b = bitlen q"
  define k where "k = int a - int b"
  from bitlen_bounds [OF p] have pa: "2 ^ (a - 1) \<le> p" "p < 2 ^ a" by (simp_all add: a_def)
  from bitlen_bounds [OF q] have qb: "2 ^ (b - 1) \<le> q" "q < 2 ^ b" by (simp_all add: b_def)
  from bitlen_pos [OF p] have a0: "0 < a" by (simp add: a_def)
  from bitlen_pos [OF q] have b0: "0 < b" by (simp add: b_def)
  have rp: "(2::rat) ^ (a - 1) \<le> of_int p" "of_int p < (2::rat) ^ a"
    using pa by (metis of_int_le_iff of_int_numeral of_int_power, metis of_int_less_iff of_int_numeral of_int_power)
  have rq: "(2::rat) ^ (b - 1) \<le> of_int q" "of_int q < (2::rat) ^ b"
    using qb by (metis of_int_le_iff of_int_numeral of_int_power, metis of_int_less_iff of_int_numeral of_int_power)
  have qpos: "(0::rat) < of_int q" using q by simp
  have ka: "pow2 (k + 1) * pow2 (int b - 1) = pow2 (int a)"
    unfolding pow2_add [symmetric] by (simp add: k_def)
  have kb: "pow2 (k - 1) * pow2 (int b) = pow2 (int a - 1)"
    unfolding pow2_add [symmetric] by (simp add: k_def)
  have b1: "pow2 (int b - 1) = 2 ^ (b - 1)"
    using b0 pow2_nat [of "b - 1"] by (simp add: of_nat_diff)
  have a1: "pow2 (int a - 1) = 2 ^ (a - 1)"
    using a0 pow2_nat [of "a - 1"] by (simp add: of_nat_diff)
  have "of_int p < pow2 (k + 1) * pow2 (int b - 1)"
    unfolding ka pow2_nat using rp(2) .
  also have "\<dots> \<le> pow2 (k + 1) * of_int q"
    unfolding b1 using rq(1) pow2_pos [of "k + 1"] by (simp add: mult_left_mono)
  finally have up: "x < pow2 (k + 1)"
    unfolding x using qpos by (simp add: pos_divide_less_eq)
  have "pow2 (k - 1) * of_int q < pow2 (k - 1) * pow2 (int b)"
    unfolding pow2_nat using rq(2) pow2_pos [of "k - 1"] by (simp add: mult_strict_left_mono)
  also have "\<dots> \<le> of_int p"
    unfolding kb a1 using rp(1) .
  finally have lo: "pow2 (k - 1) < x"
    unfolding x using qpos by (simp add: pos_less_divide_eq)
  have il: "ilog2 x = (if pow2 k \<le> x then k else k - 1)"
    by (simp add: ilog2_def pq k_def a_def b_def Let_def)
  show ?thesis
  proof (cases "pow2 k \<le> x")
    case True
    with il up show ?thesis by simp
  next
    case False
    with il lo show ?thesis by simp
  qed
qed

lemma round_half_even_error:
  "\<bar>of_int (round_half_even y) - y\<bar> \<le> 1 / 2"
proof -
  have "of_int \<lfloor>y\<rfloor> \<le> y" "y < of_int \<lfloor>y\<rfloor> + 1" by linarith+
  then show ?thesis
    by (auto simp: round_half_even_def Let_def)
qed

text \<open>In the range of the normal doubles up to 128, rounding to a double changes a
  number by at most the fraction \<open>2^-53\<close> of it.\<close>

lemma double_error:
  assumes lo: "pow2 (- 1022) \<le> x" and hi: "x \<le> 128"
  shows "\<exists>r. double x = Some r \<and> \<bar>r - x\<bar> \<le> x * pow2 (- 53)"
proof -
  from lo pow2_pos [of "- 1022"] have x0: "0 < x" by linarith
  define e where "e = ilog2 x"
  from ilog2_bounds [OF x0] have b: "pow2 e \<le> x" "x < pow2 (e + 1)" by (simp_all add: e_def)
  from lo b(2) have "pow2 (- 1022) < pow2 (e + 1)" by linarith
  then have e_lo: "- 1022 \<le> e" by (simp add: pow2_less_iff)
  define q where "q = pow2 (e - 52)"
  define m where "m = round_half_even (x / q)"
  define r where "r = rat_of_int m * q"
  have q0: "0 < q" by (simp add: q_def pow2_pos)
  have "\<bar>r - x\<bar> = q * \<bar>of_int m - x / q\<bar>"
  proof -
    have "r - x = q * (of_int m - x / q)" using q0 by (simp add: r_def field_simps)
    then show ?thesis using q0 by (simp add: abs_mult)
  qed
  also have "\<dots> \<le> q * (1 / 2)"
    using q0 round_half_even_error [of "x / q"] unfolding m_def
    by (intro mult_left_mono) simp_all
  also have "\<dots> = pow2 e * pow2 (- 53)"
  proof -
    have "pow2 (e - 52) = pow2 (e + (- 53) + 1)" by simp
    also have "\<dots> = pow2 e * pow2 (- 53) * pow2 1" by (simp only: pow2_add)
    finally show ?thesis by (simp add: q_def pow2_def)
  qed
  also have "\<dots> \<le> x * pow2 (- 53)"
    using b(1) pow2_pos [of "- 53"] by (intro mult_right_mono) simp_all
  finally have err: "\<bar>r - x\<bar> \<le> x * pow2 (- 53)" .
  have u1: "pow2 (- 53) \<le> 1" by (simp add: pow2_def)
  from err x0 have "\<bar>r\<bar> \<le> x + x * pow2 (- 53)" by linarith
  also have "\<dots> \<le> x + x * 1" using u1 x0 by (intro add_left_mono mult_left_mono) simp_all
  also have "\<dots> \<le> 256" using hi by simp
  also have "\<dots> < pow2 1024"
  proof -
    have "pow2 8 < pow2 1024" by (simp add: pow2_less_iff)
    then show ?thesis by (simp add: pow2_def)
  qed
  finally have fin: "\<not> pow2 1024 \<le> \<bar>r\<bar>" by simp
  have "double x = Some r"
    using x0 e_lo fin
    by (simp add: double_def Let_def e_def [symmetric] max_def q_def [symmetric] m_def [symmetric]
        r_def [symmetric])
  with err show ?thesis by blast
qed

lemma percent_double_error:
  assumes "0 \<le> s" and "s \<le> n" and "0 < n" and "n \<le> 2 ^ 44"
  shows "\<exists>y z. double (of_int s / of_int n) = Some y \<and> double (y * 100) = Some z
               \<and> \<bar>z - 100 * of_int s / of_int n\<bar> < pow2 (- 45)"
proof (cases "s = 0")
  case True
  then show ?thesis by (simp add: double_def pow2_pos)
next
  case False
  with assms have s: "1 \<le> s" by simp
  define x :: rat where "x = of_int s / of_int n"
  define u where "u = pow2 (- 53)"
  have u: "0 < u" "u \<le> 1 / 8" by (simp_all add: u_def pow2_def)
  have n0: "(0::rat) < of_int n" using assms by simp
  have x1: "x \<le> 1" unfolding x_def using assms n0 by (simp add: pos_divide_le_eq)
  have "rat_of_int n \<le> 2 ^ 44"
    using assms(4) by (metis of_int_le_iff of_int_numeral of_int_power)
  then have "1 / 2 ^ 44 \<le> 1 / rat_of_int n"
    using n0 by (intro divide_left_mono) simp_all
  also have "\<dots> \<le> x" unfolding x_def using s n0 by (simp add: divide_right_mono)
  finally have xlo: "pow2 (- 44) \<le> x" by (simp add: pow2_def)
  have "pow2 (- 1022) \<le> pow2 (- 44)" by (simp add: pow2_le_iff)
  with xlo have xlo': "pow2 (- 1022) \<le> x" by linarith
  from xlo pow2_pos [of "- 44"] have x0: "0 < x" by linarith
  from double_error [OF xlo'] x1 obtain y where y: "double x = Some y" "\<bar>y - x\<bar> \<le> x * u"
    unfolding u_def by auto
  from y(2) have ylo: "x - x * u \<le> y" and yhi: "y \<le> x + x * u" by linarith+
  have "x * (1 / 2) \<le> x - x * u"
  proof -
    have "x * u \<le> x * (1 / 8)" using u x0 by (intro mult_left_mono) simp_all
    with x0 show ?thesis by simp
  qed
  with ylo have yge: "x / 2 \<le> y" by simp
  have "pow2 (- 1022) \<le> pow2 (- 44) * 50"
  proof -
    have "pow2 (- 1022) \<le> pow2 (- 44) * 1" using \<open>pow2 (- 1022) \<le> pow2 (- 44)\<close> by simp
    also have "\<dots> \<le> pow2 (- 44) * 50" using pow2_pos [of "- 44"] by (intro mult_left_mono) simp_all
    finally show ?thesis .
  qed
  also have "\<dots> \<le> x * 50" using xlo by simp
  also have "\<dots> \<le> y * 100" using yge by simp
  finally have zlo: "pow2 (- 1022) \<le> y * 100" .
  have "x * u \<le> 1 * (1 / 8)" using u x1 x0 by (intro mult_mono) simp_all
  with yhi x1 have y98: "y \<le> 9 / 8" by linarith
  then have zhi: "y * 100 \<le> 128" by simp
  from double_error [OF zlo zhi] obtain z where
    z: "double (y * 100) = Some z" "\<bar>z - y * 100\<bar> \<le> y * 100 * u"
    unfolding u_def by auto
  have y0: "0 < y" using yge x0 by linarith
  have "z - 100 * x = (z - y * 100) + 100 * (y - x)" by simp
  then have "\<bar>z - 100 * x\<bar> \<le> \<bar>z - y * 100\<bar> + \<bar>100 * (y - x)\<bar>"
    by (simp only: abs_triangle_ineq)
  also have "\<bar>100 * (y - x)\<bar> = 100 * \<bar>y - x\<bar>" by (simp only: abs_mult abs_numeral)
  finally have "\<bar>z - 100 * x\<bar> \<le> \<bar>z - y * 100\<bar> + 100 * \<bar>y - x\<bar>" .
  also have "\<dots> \<le> y * 100 * u + 100 * (x * u)"
    using z(2) y(2) by (intro add_mono mult_left_mono) simp_all
  also have "\<dots> \<le> (9 / 8) * 100 * u + 100 * (1 * u)"
    using y98 x1 u(1) by (intro add_mono mult_right_mono mult_left_mono) simp_all
  also have "\<dots> < 256 * u" using u(1) by simp
  also have "\<dots> = pow2 (- 45)" by (simp add: u_def pow2_def)
  finally have "\<bar>z - 100 * x\<bar> < pow2 (- 45)" .
  with y(1) z(1) show ?thesis unfolding x_def by auto
qed

lemma Math_round_near:
  fixes s n :: int and z :: rat
  defines "t \<equiv> 100 * rat_of_int s / rat_of_int n"
  assumes n: "0 < n" "n \<le> 2 ^ 44"
    and z: "\<bar>z - t\<bar> < pow2 (- 45)"
  shows "\<bar>rat_of_int (Math_round z) - t\<bar> \<le> 1 / 2
         \<and> ((200 * s) mod (2 * n) \<noteq> n \<longrightarrow> Math_round z = Math_round t)"
proof -
  define m where "m = (200 * s + n) div (2 * n)"
  define k where "k = (200 * s + n) mod (2 * n)"
  define eps where "eps = pow2 (- 45)"
  have k: "0 \<le> k" "k < 2 * n" using n by (simp_all add: k_def)
  have dm: "200 * s + n = 2 * n * m + k" by (simp add: m_def k_def)
  have n0: "(0::rat) < of_int n" using n by simp
  have "rat_of_int (200 * s + n) = rat_of_int (2 * n * m + k)" by (simp only: dm)
  then have "200 * rat_of_int s + rat_of_int n = 2 * rat_of_int n * rat_of_int m + rat_of_int k"
    by simp
  then have "(200 * rat_of_int s + rat_of_int n) / (2 * rat_of_int n)
             = (2 * rat_of_int n * rat_of_int m + rat_of_int k) / (2 * rat_of_int n)" by simp
  then have th: "t + 1 / 2 = rat_of_int m + rat_of_int k / (2 * rat_of_int n)"
    using n0 by (simp add: t_def field_simps)
  have "rat_of_int n \<le> 2 ^ 44"
    using n(2) by (metis of_int_le_iff of_int_numeral of_int_power)
  then have "2 * rat_of_int n \<le> 2 ^ 45" by simp
  then have "1 / 2 ^ 45 \<le> 1 / (2 * rat_of_int n)"
    using n0 by (intro divide_left_mono) simp_all
  then have eps: "eps \<le> 1 / (2 * rat_of_int n)" "0 < eps" "eps < 1"
    by (simp_all add: eps_def pow2_def)
  from z have zb: "t - eps < z" "z < t + eps" by (simp_all add: eps_def abs_less_iff)
  have kq: "0 \<le> rat_of_int k / (2 * rat_of_int n)" "rat_of_int k / (2 * rat_of_int n) < 1"
    using k n0 by (simp_all add: pos_divide_less_eq)
  have rt: "Math_round t = m"
    unfolding Math_round_def th using kq by (simp add: floor_eq_iff)
  show ?thesis
  proof (cases "k = 0")
    case True
    with th have tm: "t + 1 / 2 = rat_of_int m" by simp
    have tie: "(200 * s) mod (2 * n) = n"
    proof -
      from True dm have "200 * s = n + 2 * n * (m - 1)" by (simp add: algebra_simps)
      then have "(200 * s) mod (2 * n) = n mod (2 * n)"
        by (metis mod_mult_self2)
      with n show ?thesis by simp
    qed
    have "Math_round z = m - 1 \<or> Math_round z = m"
    proof (cases "t \<le> z")
      case True
      with zb tm eps have "Math_round z = m"
        unfolding Math_round_def by (simp add: floor_eq_iff)
      then show ?thesis ..
    next
      case False
      with zb tm eps have "Math_round z = m - 1"
        unfolding Math_round_def by (simp add: floor_eq_iff)
      then show ?thesis ..
    qed
    with tm tie show ?thesis by auto
  next
    case False
    with k have k1: "1 \<le> k" "k \<le> 2 * n - 1" by simp_all
    have "1 / (2 * rat_of_int n) \<le> rat_of_int k / (2 * rat_of_int n)"
      using k1(1) n0 by (intro divide_right_mono) simp_all
    with eps have lo: "eps \<le> rat_of_int k / (2 * rat_of_int n)" by linarith
    have "rat_of_int k \<le> rat_of_int (2 * n - 1)"
      using k1(2) by (simp only: of_int_le_iff)
    then have "rat_of_int k \<le> 2 * rat_of_int n - 1" by simp
    then have "rat_of_int k / (2 * rat_of_int n) \<le> (2 * rat_of_int n - 1) / (2 * rat_of_int n)"
      using n0 by (intro divide_right_mono) simp_all
    also have "\<dots> = 1 - 1 / (2 * rat_of_int n)" using n0 by (simp add: field_simps)
    finally have hi: "rat_of_int k / (2 * rat_of_int n) \<le> 1 - eps" using eps by linarith
    from zb th lo hi have "rat_of_int m \<le> z + 1 / 2" "z + 1 / 2 < rat_of_int m + 1"
      by linarith+
    then have rz: "Math_round z = m"
      unfolding Math_round_def by (simp add: floor_eq_iff)
    from th kq have "\<bar>rat_of_int m - t\<bar> \<le> 1 / 2" by linarith
    with rz rt show ?thesis by simp
  qed
qed

lemma percent_near:
  assumes "0 \<le> sc" and "sc \<le> n" and "0 < n" and "n \<le> 2 ^ 44"
  shows "\<exists>p. percent sc n = Some p
             \<and> \<bar>rat_of_int p - 100 * rat_of_int sc / rat_of_int n\<bar> \<le> 1 / 2
             \<and> ((200 * sc) mod (2 * n) \<noteq> n \<longrightarrow>
                  p = Math_round (100 * rat_of_int sc / rat_of_int n))"
proof -
  from percent_double_error [OF assms] obtain y z where
    yz: "double (of_int sc / of_int n) = Some y" "double (y * 100) = Some z"
      "\<bar>z - 100 * of_int sc / of_int n\<bar> < pow2 (- 45)"
    by blast
  from yz(1,2) assms(3) have "percent sc n = Some (Math_round z)"
    by (simp add: percent_def)
  with Math_round_near [OF assms(3,4) yz(3)] show ?thesis by simp
qed

lemma percent_23_40: "percent 23 40 = Some 57"
  by code_simp

subsection \<open>Playing\<close>

lemma render_QuizScreen:
  "render s = QuizScreen \<Longrightarrow>
     0 \<le> currentQuestion s \<and> currentQuestion s < int (length (quizQuestions s)) \<and> \<not> quizCompleted s"
  by (simp add: render_def split: if_splits)

lemma quiz_inv_ready: "quiz_inv qs (ready qs)"
  by (simp add: quiz_inv_def ready_def useState_def)

lemma step_score:
  assumes "step a s = Some s'"
  shows "(a = Restart \<longrightarrow> score s' = 0)
         \<and> (a \<noteq> Restart \<longrightarrow> score s \<le> score s' \<and> score s' \<le> score s + 1)"
proof (cases a)
  case (Select i)
  with assms show ?thesis
    by (auto simp: step_def handleAnswerSelect_def split: if_splits)
next
  case Submit
  with assms show ?thesis
    by (auto simp: step_def handleSubmit_def split: if_splits option.splits sum.splits)
next
  case Next
  with assms show ?thesis
    by (auto simp: step_def handleNext_def split: if_splits)
next
  case Restart
  with assms show ?thesis
    by (auto simp: step_def handleRestart_def split: if_splits)
qed

lemma step_quiz_inv:
  assumes "step a s = Some s'" and "quiz_inv qs s"
  shows "quiz_inv qs s'"
proof (cases a)
  case (Select i)
  with assms show ?thesis
    by (auto simp: step_def handleAnswerSelect_def quiz_inv_def split: if_splits)
next
  case Submit
  with assms have r: "render s = QuizScreen" "\<not> showResult s"
    by (auto simp: step_def split: if_splits)
  from render_QuizScreen [OF r(1)] r(2) assms Submit show ?thesis
    by (auto simp: step_def handleSubmit_def quiz_inv_def split: if_splits option.splits)
next
  case Next
  with assms have r: "render s = QuizScreen" "showResult s"
    by (auto simp: step_def split: if_splits)
  from render_QuizScreen [OF r(1)] r(2) assms Next show ?thesis
    by (auto simp: step_def handleNext_def quiz_inv_def split: if_splits)
next
  case Restart
  with assms show ?thesis
    by (auto simp: step_def handleRestart_def quiz_inv_def split: if_splits)
qed

lemma run_quiz_inv:
  "run as s = Some s' \<Longrightarrow> quiz_inv qs s \<Longrightarrow> quiz_inv qs s'"
proof (induction as arbitrary: s)
  case Nil
  then show ?case by simp
next
  case (Cons a as)
  then show ?case by (auto split: option.splits dest: step_quiz_inv)
qed

lemma run_append:
  "run (as @ bs) s = (case run as s of None \<Rightarrow> None | Some s' \<Rightarrow> run bs s')"
  by (induction as arbitrary: s) (auto split: option.splits)

lemma play_Cons: "play (a # as) = [Select a, Submit, Next] @ play as"
  by (simp add: play_def)

lemma answering_round:
  assumes "answering qs k s" and "k < length qs"
    and "0 \<le> a" and "a < int (length (options (qs ! k)))"
  shows "run [Select a, Submit, Next] s =
           Some (if Suc k < length qs
                 then s\<lparr>currentQuestion := int (Suc k), selectedAnswer := None,
                        score := score s + (if a = correctAnswer (qs ! k) then 1 else 0),
                        showResult := False\<rparr>
                 else s\<lparr>selectedAnswer := Some a,
                        score := score s + (if a = correctAnswer (qs ! k) then 1 else 0),
                        showResult := True, quizCompleted := True\<rparr>)"
  using assms
  by (cases s)
     (auto simp: answering_def step_def render_def handleAnswerSelect_def handleSubmit_def
       handleNext_def)

lemma play_answering:
  assumes "answering qs k s" and "k + length selections = length qs" and "selections \<noteq> []"
    and "list_all2 (\<lambda>a q. 0 \<le> a \<and> a < int (length (options q))) selections (drop k qs)"
  shows "\<exists>s'. run (play selections) s = Some s' \<and> quizQuestions s' = qs
              \<and> score s' = score s + count_correct selections (drop k qs)
              \<and> quizCompleted s' \<and> \<not> editMode s' \<and> \<not> loading s' \<and> error s' = error s
              \<and> currentQuestion s' = int (length qs) - 1"
  using assms
proof (induction selections arbitrary: k s)
  case Nil
  then show ?case by simp
next
  case (Cons a as)
  from Cons.prems(2) have k: "k < length qs" by simp
  then have dk: "drop k qs = qs ! k # drop (Suc k) qs" by (simp add: Cons_nth_drop_Suc)
  with Cons.prems(4) have a: "0 \<le> a" "a < int (length (options (qs ! k)))"
    and rest: "list_all2 (\<lambda>a q. 0 \<le> a \<and> a < int (length (options q))) as (drop (Suc k) qs)"
    by simp_all
  note rnd = answering_round [OF Cons.prems(1) k a]
  have rp: "run (play (a # as)) s =
              (case run [Select a, Submit, Next] s of None \<Rightarrow> None | Some s' \<Rightarrow> run (play as) s')"
    by (simp only: play_Cons run_append)
  show ?case
  proof (cases as)
    case Nil
    with Cons.prems(2) have last: "\<not> Suc k < length qs" "int (length qs) - 1 = int k" by simp_all
    from Cons.prems(1) have "currentQuestion s = int k" "quizQuestions s = qs" "\<not> editMode s" "\<not> loading s"
      by (simp_all add: answering_def)
    with rnd last Nil dk show ?thesis
      unfolding rp by (simp add: play_def count_correct_def)
  next
    case (Cons b bs)
    with Cons.prems(2) \<open>k + length (a # as) = length qs\<close> have more: "Suc k < length qs" by simp
    define s1 where "s1 = s\<lparr>currentQuestion := int (Suc k), selectedAnswer := None,
                        score := score s + (if a = correctAnswer (qs ! k) then 1 else 0),
                        showResult := False\<rparr>"
    from rnd more have r1: "run [Select a, Submit, Next] s = Some s1" by (simp add: s1_def)
    from \<open>answering qs k s\<close> have an: "answering qs (Suc k) s1"
      by (simp add: answering_def s1_def)
    from \<open>k + length (a # as) = length qs\<close> have len: "Suc k + length as = length qs" by simp
    from Cons have ne: "as \<noteq> []" by simp
    from Cons.IH [OF an len ne rest] obtain s' where
      s': "run (play as) s1 = Some s'" "quizQuestions s' = qs"
        "score s' = score s1 + count_correct as (drop (Suc k) qs)"
        "quizCompleted s'" "\<not> editMode s'" "\<not> loading s'" "error s' = error s1"
        "currentQuestion s' = int (length qs) - 1"
      by blast
    have "score s1 + count_correct as (drop (Suc k) qs) = score s + count_correct (a # as) (drop k qs)"
      by (simp add: s1_def dk count_correct_def)
    with s' r1 show ?thesis
      unfolding rp by (simp add: s1_def)
  qed
qed

lemma answering_ready: "answering qs 0 (ready qs)"
  by (simp add: answering_def ready_def useState_def)

lemma count_correct_bounds:
  "0 \<le> count_correct selections qs \<and> count_correct selections qs \<le> int (length qs)"
proof -
  have "length (filter (\<lambda>(a, q). a = correctAnswer q) (zip selections qs)) \<le> length (zip selections qs)"
    by (rule length_filter_le)
  then show ?thesis by (simp add: count_correct_def)
qed

lemma quiz_run:
  assumes "qs \<noteq> []" and "length selections = length qs"
    and "list_all2 (\<lambda>a q. 0 \<le> a \<and> a < int (length (options q))) selections qs"
  shows "\<exists>s. run (play selections) (ready qs) = Some s \<and> quizQuestions s = qs
             \<and> score s = count_correct selections qs \<and> render s = CompletionScreen"
proof -
  from assms have ne: "selections \<noteq> []" by auto
  from play_answering [OF answering_ready, of selections qs] assms ne
  obtain s where s: "run (play selections) (ready qs) = Some s" "quizQuestions s = qs"
      "score s = score (ready qs) + count_correct selections qs"
      "quizCompleted s" "\<not> editMode s" "\<not> loading s" "error s = error (ready qs)"
    by auto
  then have "render s = CompletionScreen" "score s = count_correct selections qs"
    by (simp_all add: render_def ready_def useState_def)
  with s show ?thesis by blast
qed

lemma forty_questions_facts:
  "length forty_questions = 40"
  "count_correct twenty_three_right forty_questions = 23"
  "list_all2 (\<lambda>a q. 0 \<le> a \<and> a < int (length (options q))) twenty_three_right forty_questions"
  "length twenty_three_right = 40"
  by (code_simp, code_simp, code_simp, code_simp)

lemma run_seeded_all_correct:
  "run (play [2, 1, 1]) (ready (questions seeded))
     = Some ((ready (questions seeded))
              \<lparr>currentQuestion := 2, selectedAnswer := Some 1, score := 3, showResult := True,
               quizCompleted := True\<rparr>)"
  by (simp add: play_def step_def render_def handleAnswerSelect_def handleSubmit_def
      handleNext_def ready_def useState_def seeded_eq)

lemma run_seeded_two:
  "run (play [2, 1]) (ready (questions seeded)) = Some at_third_question"
  by (simp add: play_def step_def render_def handleAnswerSelect_def handleSubmit_def
      handleNext_def ready_def useState_def seeded_eq at_third_question_def)

text \<open>
  Claim C9. In every state of the client in which no answer is selected,
  \<^verbatim>\<open>handleSubmit\<close> returns at once: the state after it is the state before it, so the
  score, the current index, the selection and the flag \<^verbatim>\<open>showResult\<close> are as they
  were. (The page does not even show the submit button then, so the machine has no
  submit transition.)
\<close>

theorem handleSubmit_without_selection:
  "selectedAnswer s = None \<Longrightarrow>
     handleSubmit s = Inr s \<and> handler Submit s = Inr s \<and> step Submit s = None"
  by (simp add: handleSubmit_def step_def)

theorem handleSubmit_without_selection_witness:
  "selectedAnswer (ready (questions seeded)) = None
   \<and> handleSubmit (ready (questions seeded)) = Inr (ready (questions seeded))"
  using handleSubmit_without_selection [of "ready (questions seeded)"]
  by (simp add: ready_def useState_def)

text \<open>
  Claim C10, as stated, fails in its last part: a restart sets the score to 0 whatever
  it was. After the three seeded questions have been answered correctly the score is
  3, and the restart transition changes it by 3.
\<close>

theorem restart_resets_score_counterexample:
  "map_option score (run (play [2, 1, 1]) (ready (questions seeded))) = Some 3
   \<and> map_option score (run (play [2, 1, 1] @ [Restart]) (ready (questions seeded))) = Some 0"
  by (simp add: run_append run_seeded_all_correct)
     (simp add: step_def render_def handleRestart_def ready_def useState_def)

text \<open>
  Claim C10, amended. In every state that the client reaches from the ready state by
  transitions of select, submit, next and restart, \<open>0 \<le> score \<le> currentQuestion + 1\<close>
  holds and the score is at most the number of questions; and every transition from
  such a state other than a restart leaves the score as it is or adds 1 to it, while a
  restart sets it to 0.
\<close>

theorem score_invariant:
  assumes "run as (ready qs) = Some s"
  shows "0 \<le> score s \<and> score s \<le> currentQuestion s + 1 \<and> score s \<le> int (length qs)
         \<and> (\<forall>a s'. step a s = Some s' \<longrightarrow>
               (a = Restart \<longrightarrow> score s' = 0)
               \<and> (a \<noteq> Restart \<longrightarrow> score s \<le> score s' \<and> score s' \<le> score s + 1))"
proof -
  from run_quiz_inv [OF assms quiz_inv_ready] have "quiz_inv qs s" .
  then have "0 \<le> score s \<and> score s \<le> currentQuestion s + 1 \<and> score s \<le> int (length qs)"
    by (auto simp: quiz_inv_def split: if_splits)
  with step_score show ?thesis by blast
qed

theorem score_invariant_witness:
  "run (play [2, 1]) (ready (questions seeded)) = Some at_third_question
   \<and> 0 \<le> score at_third_question
   \<and> score at_third_question \<le> currentQuestion at_third_question + 1
   \<and> score at_third_question \<le> int (length (questions seeded))
   \<and> map_option score (step (Select 1) at_third_question) = Some 2"
  using score_invariant [of "play [2, 1]" "questions seeded" at_third_question]
  by (simp add: run_seeded_two)
     (simp add: at_third_question_def step_def render_def handleAnswerSelect_def ready_def
       useState_def seeded_eq)

text \<open>
  Claim C6, as stated, fails for the percentage when it is read as the rounding of the
  exact quotient: the quotient and the product are doubles. With 23 of 40 questions
  right, \<open>23 / 40 * 100\<close> is 57.5 and rounds to 58, but the double nearest to 23/40 is
  below it, its product with 100 is the double just below 57.5, and the completion
  screen shows 57.
\<close>

theorem percentage_rounds_half_down_counterexample:
  "length forty_questions = 40
   \<and> map_option score (run (play twenty_three_right) (ready forty_questions)) = Some 23
   \<and> map_option percentage (run (play twenty_three_right) (ready forty_questions)) = Some (Some 57)
   \<and> Math_round (23 / 40 * 100) = 58"
proof -
  have ne: "forty_questions \<noteq> []" using forty_questions_facts(1) by auto
  from quiz_run [OF ne, of twenty_three_right] forty_questions_facts
  obtain s where s: "run (play twenty_three_right) (ready forty_questions) = Some s"
    "quizQuestions s = forty_questions" "score s = 23"
    by auto
  then have "percentage s = Some 57"
    by (simp add: percentage_def forty_questions_facts(1) percent_23_40)
  moreover have "Math_round (23 / 40 * 100) = 58"
    by (simp add: Math_round_def floor_eq_iff)
  ultimately show ?thesis using s forty_questions_facts(1) by simp
qed

text \<open>
  Claim C6, amended. For every sequence of \<open>N \<ge> 1\<close> questions (\<open>N \<le> 2^44\<close>) and every
  sequence of \<open>N\<close> selections, each an option of its question, the run that selects,
  submits and goes on for each question in turn ends on the completion screen with the
  score equal to the number of positions at which the selection is the question's
  \<^verbatim>\<open>correctAnswer\<close>. The percentage shown is \<^verbatim>\<open>Math.round\<close> of the double-precision
  value of \<open>(score / N) * 100\<close>: an integer at most 1/2 away from \<open>score / N * 100\<close>, and
  equal to \<open>round(score / N * 100)\<close> whenever \<open>score / N * 100\<close> is not exactly halfway
  between two integers (when it is, either neighbour may be shown). In particular, for
  the three seeded questions, all correct gives score 3 and 100, and the first wrong
  and the rest correct gives score 2 and 67: the witness below.
\<close>

theorem quiz_run_score_and_percentage:
  assumes "qs \<noteq> []" and "length selections = length qs"
    and "list_all2 (\<lambda>a q. 0 \<le> a \<and> a < int (length (options q))) selections qs"
    and "length qs \<le> 2 ^ 44"
  shows "\<exists>s p. run (play selections) (ready qs) = Some s
            \<and> render s = CompletionScreen
            \<and> score s = count_correct selections qs
            \<and> percentage s = Some p
            \<and> \<bar>rat_of_int p - 100 * rat_of_int (score s) / rat_of_int (int (length qs))\<bar> \<le> 1 / 2
            \<and> ((200 * score s) mod (2 * int (length qs)) \<noteq> int (length qs) \<longrightarrow>
                 p = Math_round (100 * rat_of_int (score s) / rat_of_int (int (length qs))))"
proof -
  from quiz_run [OF assms(1-3)] obtain s where
    s: "run (play selections) (ready qs) = Some s" "quizQuestions s = qs"
      "score s = count_correct selections qs" "render s = CompletionScreen"
    by blast
  have n: "0 < int (length qs)" using assms(1) by simp
  have "int (length qs) \<le> int (2 ^ 44)" using assms(4) by (simp only: of_nat_le_iff)
  then have n44: "int (length qs) \<le> 2 ^ 44" by simp
  from count_correct_bounds [of selections qs] s(3)
  have sc: "0 \<le> score s" "score s \<le> int (length qs)" by simp_all
  from percent_near [OF sc n n44] obtain p where
    "percent (score s) (int (length qs)) = Some p"
    "\<bar>rat_of_int p - 100 * rat_of_int (score s) / rat_of_int (int (length qs))\<bar> \<le> 1 / 2"
    "(200 * score s) mod (2 * int (length qs)) \<noteq> int (length qs) \<longrightarrow>
       p = Math_round (100 * rat_of_int (score s) / rat_of_int (int (length qs)))"
    by blast
  with s show ?thesis by (auto simp: percentage_def)
qed

theorem quiz_run_score_and_percentage_witness:
  "questions seeded \<noteq> [] \<and> length [2, 1, 1 :: int] = length (questions seeded)
   \<and> list_all2 (\<lambda>a q. 0 \<le> a \<and> a < int (length (options q))) [2, 1, 1] (questions seeded)
   \<and> list_all2 (\<lambda>a q. 0 \<le> a \<and> a < int (length (options q))) [0, 1, 1] (questions seeded)
   \<and> length (questions seeded) \<le> 2 ^ 44
   \<and> map_option score (run (play [2, 1, 1]) (ready (questions seeded))) = Some 3
   \<and> map_option percentage (run (play [2, 1, 1]) (ready (questions seeded))) = Some (Some 100)
   \<and> map_option score (run (play [0, 1, 1]) (ready (questions seeded))) = Some 2
   \<and> map_option percentage (run (play [0, 1, 1]) (ready (questions seeded))) = Some (Some 67)"
proof -
  have f: "\<lfloor>201 / 2 :: rat\<rfloor> = 100" "\<lfloor>403 / 6 :: rat\<rfloor> = 67"
    by (simp_all add: floor_eq_iff)
  show ?thesis
    using quiz_run_score_and_percentage [of "questions seeded" "[2, 1, 1]"]
      quiz_run_score_and_percentage [of "questions seeded" "[0, 1, 1]"]
    by (auto simp: seeded_eq count_correct_def Math_round_def f)
qed

subsection \<open>Editing\<close>

lemma greater_Math_max_from:
  "(Math_max_from v xs < i) = (v < i \<and> list_all (\<lambda>j. j < i) xs)"
  by (induction xs arbitrary: v) auto

lemma greater_Math_max:
  "greater i (Math_max xs) = list_all (\<lambda>j. j < i) xs"
  by (cases xs) (simp_all add: greater_Math_max_from)

lemma get_questions_ok:
  "ok (fst (get_questions d)) \<and> json (fst (get_questions d)) = Rows (SELECT_ordered d)
   \<and> snd (get_questions d) = d"
  by (simp add: get_questions_def ok_def respond_def)

text \<open>The first fetch, which \<^verbatim>\<open>useEffect\<close> starts, leads to the ready state.\<close>

lemma fetchQuestions_useState:
  "fetchQuestions useState d = (ready (SELECT_ordered d), d)"
  by (simp add: fetchQuestions_def get_questions_def ok_def respond_def ready_def useState_def)

lemma fetchQuestions_eq:
  "fetchQuestions s d = (s\<lparr>error := None, quizQuestions := SELECT_ordered d, loading := False\<rparr>, d)"
  by (simp add: fetchQuestions_def get_questions_def ok_def respond_def)

text \<open>The delete flow is where the client resets the current index: after a delete
  that succeeded, when the index was at or past the last question of the list as
  loaded before.\<close>

lemma handleDeleteQuestion_resets_index:
  assumes "1 < length (quizQuestions s)"
    and "ok (fst (server (DELETE_question (IntegerText i)) d))"
    and "int (length (quizQuestions s)) - 1 \<le> currentQuestion s"
  shows "currentQuestion (fst (handleDeleteQuestion i s d)) = 0"
proof -
  obtain r d' where sv: "server (DELETE_question (IntegerText i)) d = (r, d')"
    by (cases "server (DELETE_question (IntegerText i)) d")
  with assms(2) have "ok r" by simp
  with assms(1,3) sv show ?thesis
    by (simp add: handleDeleteQuestion_def fetchQuestions_eq)
qed

text \<open>With a draft \<open>q\<close> in the editor, \<^verbatim>\<open>handleSaveQuestion\<close> sends Create (POST) with
  the draft's four fields exactly when the id of the draft is greater than the id of
  every loaded question, and Update (PUT) of the draft's id otherwise. When the
  response is ok, the question list is fetched again from the store as the save left
  it and the editor is closed; no line of the handler sets the current index, the
  selection, the score or the flags \<^verbatim>\<open>showResult\<close> and \<^verbatim>\<open>quizCompleted\<close>. When the
  response is not ok, only the error message is set.\<close>

lemma handleSaveQuestion_request_and_refetch:
  fixes s :: QuizGame and q :: Question and d :: db
  assumes "editingQuestion s = Some q"
  defines "r \<equiv> fst (server (save_request s q) d)"
  defines "d' \<equiv> snd (server (save_request s q) d)"
  shows "save_request s q =
           (if list_all (\<lambda>j. j < qid q) (map qid (quizQuestions s))
            then POST_questions (stringify_bytes q) (draft_body q)
            else PUT_question (IntegerText (qid q)) (stringify_bytes q) (draft_body q))
         \<and> (ok r \<longrightarrow>
               handleSaveQuestion s d =
                 (s\<lparr>error := None, quizQuestions := SELECT_ordered d', loading := False,
                    editMode := False, editingQuestion := None\<rparr>, d')
               \<and> currentQuestion (fst (handleSaveQuestion s d)) = currentQuestion s
               \<and> selectedAnswer (fst (handleSaveQuestion s d)) = selectedAnswer s
               \<and> score (fst (handleSaveQuestion s d)) = score s
               \<and> showResult (fst (handleSaveQuestion s d)) = showResult s
               \<and> quizCompleted (fst (handleSaveQuestion s d)) = quizCompleted s)
         \<and> (\<not> ok r \<longrightarrow>
               handleSaveQuestion s d = (s\<lparr>error := Some ''Failed to save question''\<rparr>, d'))"
proof -
  obtain r0 d0 where sv: "server (save_request s q) d = (r0, d0)"
    by (cases "server (save_request s q) d")
  then have rd: "r = r0" "d' = d0" by (simp_all add: r_def d'_def)
  have req: "save_request s q =
           (if list_all (\<lambda>j. j < qid q) (map qid (quizQuestions s))
            then POST_questions (stringify_bytes q) (draft_body q)
            else PUT_question (IntegerText (qid q)) (stringify_bytes q) (draft_body q))"
    by (simp add: save_request_def greater_Math_max)
  have h: "handleSaveQuestion s d =
             (if \<not> ok r0 then (s\<lparr>error := Some ''Failed to save question''\<rparr>, d0)
              else (s\<lparr>error := None, quizQuestions := SELECT_ordered d0, loading := False,
                      editMode := False, editingQuestion := None\<rparr>, d0))"
    by (simp add: handleSaveQuestion_def assms(1) sv fetchQuestions_eq)
  from req h show ?thesis
    unfolding rd by simp
qed

text \<open>A save by itself never makes the list shorter: when the client's list is as long
  as the table and the current index is in it, the index is still in the list that is
  fetched after a successful save. The index can be missing after a save only when the
  store was changed from elsewhere in the meantime.\<close>

lemma post_questions_ok_length:
  assumes "ok (fst (post_questions b d))"
  shows "length (questions (snd (post_questions b d))) = length (questions d) + 1"
proof (cases "validation b")
  case (Inl r)
  with assms validation_Inl_status [OF Inl] show ?thesis
    by (simp add: post_questions_def ok_def)
next
  case (Inr os)
  with assms show ?thesis
    by (auto simp: post_questions_def INSERT_def Let_def ok_def internal_server_error_def
        respond_def split: sum.splits option.splits if_splits prod.splits)
qed

lemma put_question_ok_length:
  assumes "ok (fst (put_question p b d))"
  shows "length (questions (snd (put_question p b d))) = length (questions d)"
proof (cases "validation b")
  case (Inl r)
  with assms validation_Inl_status [OF Inl] show ?thesis
    by (simp add: put_question_def ok_def)
next
  case (Inr os)
  with assms show ?thesis
    by (auto simp: put_question_def UPDATE_def Let_def ok_def internal_server_error_def
        not_found_def respond_def
        split: sum.splits option.splits if_splits list.splits prod.splits)
qed

lemma save_in_sync_keeps_index:
  assumes "editingQuestion s = Some q"
    and "ok (fst (server (save_request s q) d))"
    and "length (quizQuestions s) = length (questions d)"
    and "currentQuestion s < int (length (quizQuestions s))"
  shows "currentQuestion (fst (handleSaveQuestion s d))
           < int (length (quizQuestions (fst (handleSaveQuestion s d))))"
proof -
  obtain r d' where sv: "server (save_request s q) d = (r, d')"
    by (cases "server (save_request s q) d")
  with assms(2) have okr: "ok r" by simp
  have "length (questions d) \<le> length (questions d')"
  proof (cases "save_request s q")
    case (POST_questions n b)
    with sv assms(2) post_questions_ok_length [of b d] show ?thesis
      by (cases "express_json n") auto
  next
    case (PUT_question p n b)
    with sv assms(2) put_question_ok_length [of p b d] show ?thesis
      by (cases "express_json n") auto
  qed (simp_all add: save_request_def split: if_splits)
  with assms(1,3,4) sv okr show ?thesis
    by (simp add: handleSaveQuestion_def fetchQuestions_eq SELECT_ordered_def)
qed

lemma adding_eq:
  "adding_at_third_question =
     (ready (questions seeded))
       \<lparr>currentQuestion := 2, score := 2,
        editingQuestion :=
          Some \<lparr>qid = 4, question = ''New Question'',
                options = [''Option 1'', ''Option 2'', ''Option 3'', ''Option 4''],
                correctAnswer = 0, explanation = ''Explanation for the new question''\<rparr>,
        editMode := True\<rparr>"
  by (simp add: adding_at_third_question_def at_third_question_def handleAddQuestion_def
      ready_def useState_def seeded_eq)

text \<open>The body that Save sends for the draft of "Add New Question" has 150 bytes.\<close>

lemma stringify_bytes_new_question:
  "stringify_bytes
     \<lparr>qid = i, question = ''New Question'',
      options = [''Option 1'', ''Option 2'', ''Option 3'', ''Option 4''],
      correctAnswer = 0, explanation = ''Explanation for the new question''\<rparr> = 150"
  by (simp add: stringify_bytes_def string_bytes_def array_bytes_def number_bytes_def
      char_bytes_def digits.simps)

lemma save_adding_single:
  "handleSaveQuestion adding_at_third_question single =
     ((ready (questions seeded))
        \<lparr>currentQuestion := 2, score := 2,
         quizQuestions :=
           [\<lparr>qid = 1, question = ''What is the capital of France?'',
             options = [''London'', ''Berlin'', ''Paris'', ''Madrid''], correctAnswer = 2,
             explanation = ''Paris has been the capital of France since the 12th century.''\<rparr>,
            \<lparr>qid = 4, question = ''New Question'',
             options = [''Option 1'', ''Option 2'', ''Option 3'', ''Option 4''],
             correctAnswer = 0, explanation = ''Explanation for the new question''\<rparr>]\<rparr>,
      \<lparr>questions =
         [\<lparr>qid = 1, question = ''What is the capital of France?'',
           options = [''London'', ''Berlin'', ''Paris'', ''Madrid''], correctAnswer = 2,
           explanation = ''Paris has been the capital of France since the 12th century.''\<rparr>,
          \<lparr>qid = 4, question = ''New Question'',
           options = [''Option 1'', ''Option 2'', ''Option 3'', ''Option 4''],
           correctAnswer = 0, explanation = ''Explanation for the new question''\<rparr>],
       questions_id_seq = 5\<rparr>)"
  by (simp add: adding_eq single_eq handleSaveQuestion_def save_request_def
      stringify_bytes_new_question express_json_def draft_body_def
      post_questions_def validation_def answer_rejected_def js_lt_def js_gt_def INSERT_def
      bind_def text_param_def text_array_param_def storable_def int4_param_def int4_def
      Let_def ok_def respond_def fetchQuestions_eq SELECT_ordered_def
      ready_def useState_def seeded_eq)

text \<open>
  Claim C7 does not hold of the code in its last part. Save sends Create or Update as
  the claim says and fetches the list again on success, but \<^verbatim>\<open>handleSaveQuestion\<close>
  never sets the current index, where \<^verbatim>\<open>handleDeleteQuestion\<close> resets it to 0. The
  theorem evaluates the handler for a client that loaded the three seeded questions,
  stands at the third (index 2) and adds a question, while the store, changed by
  another client, holds only the first: the save succeeds and closes the editor, the
  list fetched again has two questions, and the current index is still 2 and not 0. The
  list has no question at that index, and the next render of the quiz screen throws
  on it.
\<close>

theorem handleSaveQuestion_keeps_missing_index:
  "render at_third_question = QuizScreen
   \<and> editingQuestion adding_at_third_question \<noteq> None
   \<and> save_request adding_at_third_question
        \<lparr>qid = 4, question = ''New Question'',
         options = [''Option 1'', ''Option 2'', ''Option 3'', ''Option 4''],
         correctAnswer = 0, explanation = ''Explanation for the new question''\<rparr>
      = POST_questions 150
          (draft_body \<lparr>qid = 4, question = ''New Question'',
                       options = [''Option 1'', ''Option 2'', ''Option 3'', ''Option 4''],
                       correctAnswer = 0, explanation = ''Explanation for the new question''\<rparr>)
   \<and> error (fst (handleSaveQuestion adding_at_third_question single)) = None
   \<and> \<not> editMode (fst (handleSaveQuestion adding_at_third_question single))
   \<and> length (quizQuestions (fst (handleSaveQuestion adding_at_third_question single))) = 2
   \<and> currentQuestion (fst (handleSaveQuestion adding_at_third_question single)) = 2
   \<and> render (fst (handleSaveQuestion adding_at_third_question single)) = RenderError"
  by (simp add: save_adding_single)
     (simp add: adding_eq at_third_question_def render_def ready_def useState_def seeded_eq
       save_request_def stringify_bytes_new_question)

theorem handleSaveQuestion_keeps_missing_index_witness:
  "currentQuestion (fst (handleSaveQuestion adding_at_third_question single)) \<noteq> 0
   \<and> \<not> currentQuestion (fst (handleSaveQuestion adding_at_third_question single))
        < int (length (quizQuestions (fst (handleSaveQuestion adding_at_third_question single))))"
  using handleSaveQuestion_keeps_missing_index by simp

end
